theory Spec2Isabelle
  imports Main
begin

section \<open>Transport core: \<open>src/Services/apiClient.js\<close>\<close>

subsection \<open>Client storage\<close>

text \<open>
  \<open>localStorage\<close> is a dictionary from string keys to string values;
  \<open>getItem\<close> answers \<open>null\<close> (here \<open>None\<close>) for a key that is not stored.
\<close>

type_synonym storage = "string \<rightharpoonup> string"

definition getItem :: "storage \<Rightarrow> string \<Rightarrow> string option" where
  "getItem st k = st k"

definition setItem :: "storage \<Rightarrow> string \<Rightarrow> string \<Rightarrow> storage" where
  "setItem st k v = st(k \<mapsto> v)"

definition removeItem :: "storage \<Rightarrow> string \<Rightarrow> storage" where
  "removeItem st k = st(k := None)"

definition TOKEN_KEY :: string where
  "TOKEN_KEY = ''churchAdminToken''"

definition REFRESH_KEY :: string where
  "REFRESH_KEY = ''churchAdminRefreshToken''"

text \<open>
  JavaScript truthiness of the result of \<open>getItem\<close> (a string or \<open>null\<close>), and of an
  optional string property: \<open>null\<close>, \<open>undefined\<close> and the empty string are falsy.
\<close>

fun truthy :: "string option \<Rightarrow> bool" where
  "truthy None = False"
| "truthy (Some s) = (s \<noteq> [])"

text \<open>\<open>a || b\<close> on optional strings.\<close>

definition or_else :: "string option \<Rightarrow> string option \<Rightarrow> string option" where
  "or_else a b = (if truthy a then a else b)"

subsection \<open>Request configuration and the request interceptor\<close>

text \<open>
  The axios request configuration. \<open>req_id\<close> stands for the identity of the
  JavaScript object (two requests with equal fields are still two requests);
  \<open>metadata\<close> is the \<open>{startTime}\<close> object the interceptor adds, a time in
  milliseconds; \<open>retry\<close> is the \<open>_retry\<close> marker, absent (falsy) on a fresh request.
\<close>

record config =
  req_id :: nat
  url :: string
  http_method :: string
  headers :: "string \<rightharpoonup> string"
  payload :: "string option"
  metadata :: "nat option"
  retry :: bool

definition bearer :: "string \<Rightarrow> string" where
  "bearer token = ''Bearer '' @ token"

text \<open>
  \<open>apiClient.interceptors.request.use\<close>, success callback; \<open>now\<close> is the value of
  \<open>new Date()\<close>.
\<close>

definition request_interceptor :: "storage \<Rightarrow> nat \<Rightarrow> config \<Rightarrow> config" where
  "request_interceptor st now cfg =
     (let token = getItem st TOKEN_KEY;
          cfg1 = (if truthy token
                  then cfg\<lparr>headers := (headers cfg)(''Authorization'' \<mapsto> bearer (the token))\<rparr>
                  else cfg)
      in cfg1\<lparr>metadata := Some now\<rparr>)"

subsection \<open>Errors and responses seen by the response interceptor\<close>

text \<open>
  The fields of \<open>error.response\<close> the handler reads: the status and, through
  \<open>data?.message\<close>, \<open>data?.error\<close> and \<open>data?.errors\<close>, three optional
  properties of the body (an absent body reads as three absent properties).
  \<open>errors\<close> is an array of strings; an empty array is truthy in JavaScript.
\<close>

record response =
  status :: nat
  r_message :: "string option"
  r_error :: "string option"
  r_errors :: "string list option"

record http_error =
  e_config :: config
  e_code :: "string option"
  e_message :: string
  e_response :: "response option"

text \<open>
  What a promise of the client can be rejected with: the error object axios produced, or
  the \<open>Error\<close> the refresh block throws itself.
\<close>

datatype reason = Axios http_error | JsError string

text \<open>
  The answer of the dedicated refresh call \<open>axios.post(BASE_URL/auth/refresh)\<close>: it
  rejects (network failure, timeout, non-2xx status), or it resolves with a response
  whose \<open>data\<close> may be falsy and otherwise carries the token at
  \<open>data.data.accessToken\<close>, \<open>data.data.token\<close>, \<open>data.accessToken\<close> or
  \<open>data.token\<close>.
\<close>

record token_fields =
  accessToken :: "string option"
  token :: "string option"

record refresh_body =
  rb_data :: "token_fields option"
  rb_accessToken :: "string option"
  rb_token :: "string option"

datatype refresh_result = RefreshRejected reason | RefreshResolved "refresh_body option"

text \<open>
  \<open>responseData = refreshResponse.data.data || refreshResponse.data\<close> followed by
  \<open>responseData.accessToken || responseData.token\<close>; \<open>None\<close> when the result is
  falsy or \<open>refreshResponse.data\<close> is.
\<close>

definition newAccessToken :: "refresh_body option \<Rightarrow> string option" where
  "newAccessToken d =
     (case d of
        None \<Rightarrow> None
      | Some b \<Rightarrow>
          (let tok = (case rb_data b of
                        Some tf \<Rightarrow> or_else (accessToken tf) (token tf)
                      | None \<Rightarrow> or_else (rb_accessToken b) (rb_token b))
           in if truthy tok then tok else None))"

subsection \<open>Shared state of the client\<close>

text \<open>
  What a request's promise has become: the request was handed to \<open>apiClient\<close> again
  (the promise follows that new call), or the promise was rejected.
\<close>

datatype outcome = Resubmitted config | Rejected reason

text \<open>
  The module-level variables \<open>isRefreshing\<close> and \<open>failedQueue\<close>, the browser's
  storage, and a log of the effects of the handler. An entry of \<open>failedQueue\<close> is the
  \<open>{resolve, reject}\<close> pair of a promise whose continuation resubmits one request; the
  entry is represented by that request. \<open>awaiting\<close> is the invocation of the handler
  suspended at \<open>await axios.post\<close>: its request (already marked \<open>_retry\<close>) and the
  refresh token it read. \<open>refreshCalls\<close> lists the bearer credential of every refresh
  call issued, \<open>settled\<close> the outcome of every promise settled (by \<open>req_id\<close>),
  \<open>logoutEvents\<close> counts the dispatched \<open>auth:logout\<close> events,
  \<open>navigations\<close> lists the assignments to \<open>window.location.href\<close> (the page
  is left only after the running callback has returned, so \<open>pathname\<close> stays) and
  \<open>toasts\<close> lists the notifications. Within one callback the entries of
  \<open>settled\<close> follow the order in which the handler settles the promises: the queue
  in enqueue order, then the request that started the refresh.
\<close>

record client =
  store :: storage
  isRefreshing :: bool
  failedQueue :: "config list"
  awaiting :: "(config \<times> string) option"
  refreshCalls :: "string list"
  settled :: "(nat \<times> outcome) list"
  logoutEvents :: nat
  pathname :: string
  navigations :: "string list"
  toasts :: "string list"

definition settle :: "config \<Rightarrow> outcome \<Rightarrow> client \<Rightarrow> client" where
  "settle cfg out c = c\<lparr>settled := settled c @ [(req_id cfg, out)]\<rparr>"

definition with_authorization :: "string \<Rightarrow> config \<Rightarrow> config" where
  "with_authorization tok cfg = cfg\<lparr>headers := (headers cfg)(''Authorization'' \<mapsto> bearer tok)\<rparr>"

text \<open>
  \<open>processQueue(error, token)\<close>: every queued promise is rejected with the error, or
  resolved with the token, in which case its \<open>then\<close> callback sets the header and
  calls \<open>apiClient(originalRequest)\<close>; then the queue is emptied.
\<close>

fun settle_all :: "config list \<Rightarrow> (config \<Rightarrow> outcome) \<Rightarrow> client \<Rightarrow> client" where
  "settle_all [] f c = c"
| "settle_all (q # qs) f c = settle_all qs f (settle q (f q) c)"

definition processQueue :: "reason option \<Rightarrow> string \<Rightarrow> client \<Rightarrow> client" where
  "processQueue err tok c =
     (settle_all (failedQueue c)
        (\<lambda>q. case err of Some e \<Rightarrow> Rejected e | None \<Rightarrow> Resubmitted (with_authorization tok q)) c)
     \<lparr>failedQueue := []\<rparr>"

subsection \<open>Notifications for the other statuses\<close>

definition getDefaultErrorMessage :: "nat \<Rightarrow> string" where
  "getDefaultErrorMessage st =
     (if st = 400 then ''Bad Request'' else if st = 401 then ''Unauthorized''
      else if st = 403 then ''Forbidden'' else if st = 404 then ''Not Found''
      else if st = 409 then ''Conflict'' else if st = 422 then ''Validation Error''
      else if st = 429 then ''Too Many Requests'' else if st = 500 then ''Internal Server Error''
      else if st = 502 then ''Bad Gateway'' else if st = 503 then ''Service Unavailable''
      else ''An error occurred'')"

fun join :: "string \<Rightarrow> string list \<Rightarrow> string" where
  "join sep [] = []"
| "join sep [x] = x"
| "join sep (x # y # ys) = x @ sep @ join sep (y # ys)"

definition status_toasts :: "response \<Rightarrow> string list" where
  "status_toasts r =
     (let st = status r;
          errorMessage = (case or_else (r_message r) (r_error r) of
                            Some m \<Rightarrow> if m = [] then getDefaultErrorMessage st else m
                          | None \<Rightarrow> getDefaultErrorMessage st)
      in if st = 400 then
           (case r_errors r of
              Some es \<Rightarrow> [''Validation Error: '' @ join '', '' es]
            | None \<Rightarrow> [''Bad Request: '' @ errorMessage])
         else if st = 403 then
           [''Access forbidden. You do not have permission to perform this action.'']
         else if st = 404 then [''Resource not found.'']
         else if st = 409 then [''Conflict: '' @ errorMessage]
         else if st = 422 then
           (case r_errors r of
              Some es \<Rightarrow> [''Validation Error: '' @ join '', '' es]
            | None \<Rightarrow> [''Validation Error: '' @ errorMessage])
         else if st = 429 then [''Too many requests. Please try again later.'']
         else if st = 500 then [''Internal server error. Please try again later.'']
         else if st = 502 then [''Bad Gateway. The server is temporarily unavailable.'']
         else if st = 503 then [''Service temporarily unavailable. Please try again later.'']
         else if 400 \<le> st \<and> st < 500 then [errorMessage]
         else if 500 \<le> st then [''Server error. Please try again later.'']
         else [])"

subsection \<open>The response interceptor's error handler\<close>

text \<open>
  The \<open>catch\<close> block of the refresh, followed by \<open>finally\<close>: the queue is rejected,
  both tokens are removed, \<open>auth:logout\<close> is dispatched, the browser is sent to
  \<open>/login\<close> unless it is there, the request's promise is rejected, and
  \<open>isRefreshing\<close> is cleared.
\<close>

definition refresh_failed :: "config \<Rightarrow> reason \<Rightarrow> client \<Rightarrow> client" where
  "refresh_failed req refreshError c =
     (let c1 = processQueue (Some refreshError) [] c;
          c2 = c1\<lparr>store := removeItem (removeItem (store c1) TOKEN_KEY) REFRESH_KEY\<rparr>;
          c3 = c2\<lparr>logoutEvents := Suc (logoutEvents c2)\<rparr>;
          c4 = (if pathname c3 \<noteq> ''/login''
                then c3\<lparr>navigations := navigations c3 @ [''/login'']\<rparr> else c3);
          c5 = settle req (Rejected refreshError) c4
      in c5\<lparr>isRefreshing := False, awaiting := None\<rparr>)"

text \<open>
  The part of the \<open>try\<close> block after the \<open>await\<close>, entered when the refresh call has
  resolved; a response without a usable token falls through to the \<open>throw\<close>.
\<close>

definition refresh_resolved :: "config \<Rightarrow> string \<Rightarrow> refresh_body option \<Rightarrow> client \<Rightarrow> client" where
  "refresh_resolved req refreshToken d c =
     (case newAccessToken d of
        Some tok \<Rightarrow>
          (let c1 = c\<lparr>store := setItem (setItem (store c) TOKEN_KEY tok) REFRESH_KEY refreshToken\<rparr>;
               c2 = processQueue None tok c1;
               c3 = settle req (Resubmitted (with_authorization tok req)) c2
           in c3\<lparr>isRefreshing := False, awaiting := None\<rparr>)
      | None \<Rightarrow> refresh_failed req (JsError ''No refresh token available'') c)"

text \<open>
  The handler up to its first suspension point, for an error whose configuration is
  \<open>originalRequest\<close>.
\<close>

definition on_response_error :: "http_error \<Rightarrow> client \<Rightarrow> client" where
  "on_response_error err c =
     (let originalRequest = e_config err in
      case e_response err of
        None \<Rightarrow>
          settle originalRequest (Rejected (Axios err))
            (c\<lparr>toasts := toasts c @
                 [if e_code err = Some ''ECONNABORTED''
                  then ''Request timeout. Please check your internet connection and try again.''
                  else if e_code err = Some ''ERR_NETWORK''
                  then ''Network error. Please check your internet connection.''
                  else ''Unable to connect to server. Please check your internet connection.'']\<rparr>)
      | Some r \<Rightarrow>
          if status r = 401 \<and> \<not> retry originalRequest then
            (if isRefreshing c then c\<lparr>failedQueue := failedQueue c @ [originalRequest]\<rparr>
             else
               (let req = originalRequest\<lparr>retry := True\<rparr>;
                    c1 = c\<lparr>isRefreshing := True\<rparr>;
                    refreshToken = getItem (store c1) REFRESH_KEY
                in if truthy refreshToken
                   then c1\<lparr>awaiting := Some (req, the refreshToken),
                           refreshCalls := refreshCalls c1 @ [bearer (the refreshToken)]\<rparr>
                   else refresh_failed req (JsError ''No refresh token available'') c1))
          else
            settle originalRequest (Rejected (Axios err))
              (c\<lparr>toasts := toasts c @ status_toasts r\<rparr>))"

text \<open>
  The handler resumed when the refresh call settles. Without a suspended invocation
  there is nothing to resume.
\<close>

definition on_refresh_settled :: "refresh_result \<Rightarrow> client \<Rightarrow> client" where
  "on_refresh_settled res c =
     (case awaiting c of
        None \<Rightarrow> c
      | Some (req, refreshToken) \<Rightarrow>
          (case res of
             RefreshRejected e \<Rightarrow> refresh_failed req e c
           | RefreshResolved d \<Rightarrow> refresh_resolved req refreshToken d c))"

text \<open>
  \<open>tokenManager.setTokens\<close> and \<open>tokenManager.clearTokens\<close>, through which the rest
  of the application writes the storage (at login and logout).
\<close>

definition setTokens :: "string \<Rightarrow> string \<Rightarrow> client \<Rightarrow> client" where
  "setTokens tok refreshToken c =
     c\<lparr>store := setItem (setItem (store c) TOKEN_KEY tok) REFRESH_KEY refreshToken\<rparr>"

definition clearTokens :: "client \<Rightarrow> client" where
  "clearTokens c = c\<lparr>store := removeItem (removeItem (store c) TOKEN_KEY) REFRESH_KEY\<rparr>"

text \<open>
  The event loop runs one callback at a time: a response error arrives, the refresh
  call settles, or other code of the application writes the tokens.
\<close>

datatype event =
    ResponseError http_error
  | RefreshSettled refresh_result
  | TokensSet string string
  | TokensCleared

fun step :: "event \<Rightarrow> client \<Rightarrow> client" where
  "step (ResponseError err) c = on_response_error err c"
| "step (RefreshSettled res) c = on_refresh_settled res c"
| "step (TokensSet tok refreshToken) c = setTokens tok refreshToken c"
| "step TokensCleared c = clearTokens c"

fun run :: "event list \<Rightarrow> client \<Rightarrow> client" where
  "run [] c = c"
| "run (e # es) c = run es (step e c)"

section \<open>Resource gateways: \<open>attendanceAPI.js\<close> and \<open>eventsAPI.js\<close>\<close>

subsection \<open>JavaScript values\<close>

text \<open>
  The values that travel through the gateways untyped: payloads of the backend and
  properties handed through as they are. The numbers of a payload are integers, which
  the gateways hand on and never print or parse. \<open>Undefined\<close> is also what reading an
  absent property gives.
\<close>

datatype jsval =
    Undefined | Null | Bool bool | Num int | Str string
  | Arr "jsval list" | Obj "(string \<times> jsval) list"

fun js_truthy :: "jsval \<Rightarrow> bool" where
  "js_truthy Undefined = False"
| "js_truthy Null = False"
| "js_truthy (Bool b) = b"
| "js_truthy (Num n) = (n \<noteq> 0)"
| "js_truthy (Str s) = (s \<noteq> [])"
| "js_truthy (Arr xs) = True"
| "js_truthy (Obj kvs) = True"

text \<open>\<open>a || b\<close>.\<close>

definition js_or :: "jsval \<Rightarrow> jsval \<Rightarrow> jsval" where
  "js_or a b = (if js_truthy a then a else b)"

text \<open>
  Reading a property: a \<open>TypeError\<close> (\<open>None\<close>) on \<open>undefined\<close> and \<open>null\<close>, the value of
  the last entry with that key on an object, \<open>undefined\<close> otherwise.
\<close>

fun js_get :: "jsval \<Rightarrow> string \<Rightarrow> jsval option" where
  "js_get Undefined k = None"
| "js_get Null k = None"
| "js_get (Obj kvs) k = Some (case map_of (rev kvs) k of Some v \<Rightarrow> v | None \<Rightarrow> Undefined)"
| "js_get v k = Some Undefined"

text \<open>
  An object literal as the value it is for the reader of its properties: a property
  written with the value \<open>undefined\<close> reads like an absent one and is not listed.
\<close>

definition object :: "(string \<times> jsval) list \<Rightarrow> jsval" where
  "object kvs = Obj (filter (\<lambda>(k, v). v \<noteq> Undefined) kvs)"

subsection \<open>Numbers the gateways print and parse\<close>

text \<open>
  The numbers a caller hands to a gateway to be printed into a URL or parsed for a
  request body are the safe integers of JavaScript, of magnitude at most \<open>2\<^sup>5\<^sup>3 - 1\<close>.
  For these \<open>String(n)\<close> and a template literal give the decimal digits, and
  \<open>parseInt(n)\<close> and \<open>parseFloat(n)\<close> give \<open>n\<close> back. Fractions, larger magnitudes,
  \<open>NaN\<close> and the infinities are not values of this type.
\<close>

typedef safe_int = "{n :: int. - 9007199254740991 \<le> n \<and> n \<le> 9007199254740991}"
  morphisms int_of Safe
  by (rule exI [of _ 0]) simp

text \<open>Optional properties with a fixed type: \<open>None\<close> is an absent property.\<close>

definition truthy_num :: "safe_int option \<Rightarrow> bool" where
  "truthy_num v = (case v of None \<Rightarrow> False | Some n \<Rightarrow> int_of n \<noteq> 0)"

definition str_of :: "string option \<Rightarrow> jsval" where
  "str_of v = (case v of None \<Rightarrow> Undefined | Some s \<Rightarrow> Str s)"

definition num_of :: "safe_int option \<Rightarrow> jsval" where
  "num_of v = (case v of None \<Rightarrow> Undefined | Some n \<Rightarrow> Num (int_of n))"

text \<open>
  \<open>parseInt(x)\<close> on an optional safe integer: the integer itself, and \<open>NaN\<close> for
  \<open>undefined\<close>, which a JSON body carries as \<open>null\<close>. \<open>parseInt(x) || 0\<close> turns
  \<open>NaN\<close> into 0.
\<close>

definition parseInt :: "safe_int option \<Rightarrow> jsval" where
  "parseInt v = (case v of None \<Rightarrow> Null | Some n \<Rightarrow> Num (int_of n))"

definition parseInt_or_zero :: "safe_int option \<Rightarrow> jsval" where
  "parseInt_or_zero v = (case v of None \<Rightarrow> Num 0 | Some n \<Rightarrow> Num (int_of n))"

text \<open>\<open>s || d\<close> for an optional string and a default, and \<open>m || d\<close> for a message.\<close>

definition str_or :: "string option \<Rightarrow> string \<Rightarrow> string" where
  "str_or s d = (if truthy s then the s else d)"

definition msg_or :: "jsval \<Rightarrow> string \<Rightarrow> jsval" where
  "msg_or m d = js_or m (Str d)"

subsection \<open>Strings\<close>

text \<open>
  A string is the UTF-8 encoding of the text, byte by byte, as a request carries it.
\<close>

text \<open>The decimal digits of a natural number and of an integer.\<close>

fun show_nat :: "nat \<Rightarrow> string" where
  "show_nat n = (if n < 10 then [''0123456789'' ! n]
                 else show_nat (n div 10) @ [''0123456789'' ! (n mod 10)])"

definition show_int :: "int \<Rightarrow> string" where
  "show_int i = (if i < 0 then CHR ''-'' # show_nat (nat (- i)) else show_nat (nat i))"

text \<open>\<open>String(n)\<close> and \<open>${n}\<close> for a safe integer.\<close>

definition js_string :: "safe_int \<Rightarrow> string" where
  "js_string n = show_int (int_of n)"

text \<open>
  The white space and line terminators of ECMAScript, which \<open>String.prototype.trim\<close>
  strips, each in its UTF-8 encoding: U+0009 to U+000D, U+0020, U+00A0, U+1680, U+2000 to
  U+200A, U+2028, U+2029, U+202F, U+205F, U+3000 and U+FEFF.
\<close>

definition js_spaces :: "string list" where
  "js_spaces =
     [[CHR 0x09], [CHR 0x0A], [CHR 0x0B], [CHR 0x0C], [CHR 0x0D], [CHR 0x20],
      [CHR 0xC2, CHR 0xA0],
      [CHR 0xE1, CHR 0x9A, CHR 0x80],
      [CHR 0xE2, CHR 0x80, CHR 0x80], [CHR 0xE2, CHR 0x80, CHR 0x81],
      [CHR 0xE2, CHR 0x80, CHR 0x82], [CHR 0xE2, CHR 0x80, CHR 0x83],
      [CHR 0xE2, CHR 0x80, CHR 0x84], [CHR 0xE2, CHR 0x80, CHR 0x85],
      [CHR 0xE2, CHR 0x80, CHR 0x86], [CHR 0xE2, CHR 0x80, CHR 0x87],
      [CHR 0xE2, CHR 0x80, CHR 0x88], [CHR 0xE2, CHR 0x80, CHR 0x89],
      [CHR 0xE2, CHR 0x80, CHR 0x8A],
      [CHR 0xE2, CHR 0x80, CHR 0xA8], [CHR 0xE2, CHR 0x80, CHR 0xA9],
      [CHR 0xE2, CHR 0x80, CHR 0xAF],
      [CHR 0xE2, CHR 0x81, CHR 0x9F],
      [CHR 0xE3, CHR 0x80, CHR 0x80],
      [CHR 0xEF, CHR 0xBB, CHR 0xBF]]"

text \<open>
  The encoded character among \<open>pats\<close> that the string starts with, and the string
  without every such character at its start.
\<close>

definition leading :: "string list \<Rightarrow> string \<Rightarrow> string option" where
  "leading pats s = find (\<lambda>p. p \<noteq> [] \<and> take (length p) s = p) pats"

function strip_leading :: "string list \<Rightarrow> string \<Rightarrow> string" where
  "strip_leading pats s =
     (case leading pats s of
        None \<Rightarrow> s
      | Some p \<Rightarrow> strip_leading pats (drop (length p) s))"
  by pat_completeness auto
termination
proof (relation "measure (\<lambda>(pats, s). length s)")
  show "wf (measure (\<lambda>(pats, s). length s))" by simp
next
  fix pats :: "string list" and s p :: string
  assume "leading pats s = Some p"
  then have "p \<noteq> []" and "take (length p) s = p"
    by (auto simp: leading_def find_Some_iff)
  then have "0 < length p" and "length (take (length p) s) = length p"
    by simp_all
  then have "0 < length p" and "length p \<le> length s"
    by (simp_all add: min_def split: if_splits)
  then show "((pats, drop (length p) s), (pats, s)) \<in> measure (\<lambda>(pats, s). length s)"
    by (cases p) auto
qed

text \<open>
  \<open>String.prototype.trim\<close>: the white space is stripped at the start and, read
  backwards, at the end.
\<close>

definition trim :: "string \<Rightarrow> string" where
  "trim s = rev (strip_leading (map rev js_spaces) (rev (strip_leading js_spaces s)))"

text \<open>
  \<open>s.length\<close>, the number of UTF-16 code units: one for a character of up to three
  bytes, two for a character of four bytes.
\<close>

definition js_length :: "string \<Rightarrow> nat" where
  "js_length s =
     sum_list (map (\<lambda>c. if of_char c < (0x80 :: nat) then 1
                          else if of_char c < (0xC0 :: nat) then 0
                          else if of_char c < (0xF0 :: nat) then 1 else 2) s)"

text \<open>\<open>s.includes(sub)\<close>.\<close>

fun str_includes :: "string \<Rightarrow> string \<Rightarrow> bool" where
  "str_includes [] sub = (sub = [])"
| "str_includes (c # cs) sub = (take (length sub) (c # cs) = sub \<or> str_includes cs sub)"

subsection \<open>Query strings\<close>

text \<open>
  \<open>URLSearchParams\<close> is a list of name-value pairs; \<open>toString\<close> writes it in the
  \<open>application/x-www-form-urlencoded\<close> form: letters, digits and \<open>*-._\<close> stay, a space
  becomes \<open>+\<close>, every other byte becomes \<open>%XX\<close>.
\<close>

definition hex_digit :: "nat \<Rightarrow> char" where
  "hex_digit n = ''0123456789ABCDEF'' ! n"

definition form_encode_char :: "char \<Rightarrow> string" where
  "form_encode_char c =
     (if c \<in> set ''ABCDEFGHIJKLMNOPQRSTUVWXYZabcdefghijklmnopqrstuvwxyz0123456789*-._'' then [c]
      else if c = CHR '' '' then ''+''
      else [CHR ''%'', hex_digit (of_char c div 16), hex_digit (of_char c mod 16)])"

definition form_encode :: "string \<Rightarrow> string" where
  "form_encode s = concat (map form_encode_char s)"

definition params_toString :: "(string \<times> string) list \<Rightarrow> string" where
  "params_toString ps = join ''&'' (map (\<lambda>(k, v). form_encode k @ ''='' @ form_encode v) ps)"

text \<open>
  \<open>if (v) queryParams.append(k, v)\<close> for a string, a number and a boolean property,
  and the same under the further test \<open>v !== 'all'\<close>.
\<close>

definition append_str :: "string \<Rightarrow> string option \<Rightarrow> (string \<times> string) list" where
  "append_str k v = (if truthy v then [(k, the v)] else [])"

definition append_num :: "string \<Rightarrow> safe_int option \<Rightarrow> (string \<times> string) list" where
  "append_num k v = (if truthy_num v then [(k, js_string (the v))] else [])"

definition append_bool :: "string \<Rightarrow> bool option \<Rightarrow> (string \<times> string) list" where
  "append_bool k v = (if v = Some True then [(k, ''true'')] else [])"

definition append_unless_all :: "string \<Rightarrow> string option \<Rightarrow> (string \<times> string) list" where
  "append_unless_all k v = (if truthy v \<and> v \<noteq> Some ''all'' then [(k, the v)] else [])"

subsection \<open>The transport as the gateways see it\<close>

text \<open>
  The body of a response of the backend, the same for answers and for errors: the
  properties the gateways read, each of any value.
\<close>

record body =
  b_data :: jsval
  b_message :: jsval
  b_pagination :: jsval
  b_count :: jsval
  b_errors :: jsval

definition empty_body :: body where
  "empty_body = \<lparr>b_data = Undefined, b_message = Undefined, b_pagination = Undefined,
                  b_count = Undefined, b_errors = Undefined\<rparr>"

text \<open>
  \<open>response.data\<close> is the parsed JSON body, or a blob when the request asked for one;
  a blob has none of the properties.
\<close>

datatype api_response = Json body | Blob string

fun json_body :: "api_response \<Rightarrow> body" where
  "json_body (Json b) = b"
| "json_body (Blob s) = empty_body"

text \<open>
  What a \<open>catch\<close> block of a gateway receives: \<open>error.message\<close> and
  \<open>error.response?.data\<close>. An \<open>Error\<close> thrown by the gateway itself has no response.
\<close>

record api_error =
  err_message :: string
  err_data :: "body option"

definition js_error :: "string \<Rightarrow> api_error" where
  "js_error m = \<lparr>err_message = m, err_data = None\<rparr>"

definition resp_message :: "api_error \<Rightarrow> jsval" where
  "resp_message e = (case err_data e of None \<Rightarrow> Undefined | Some b \<Rightarrow> b_message b)"

definition resp_errors :: "api_error \<Rightarrow> jsval" where
  "resp_errors e = (case err_data e of None \<Rightarrow> Undefined | Some b \<Rightarrow> b_errors b)"

record request =
  rq_method :: string
  rq_url :: string
  rq_body :: jsval
  rq_params :: "(string \<times> string) list"
  rq_responseType :: "string option"
  rq_accept :: "string option"

definition mk_request :: "string \<Rightarrow> string \<Rightarrow> jsval \<Rightarrow> request" where
  "mk_request m u b =
     \<lparr>rq_method = m, rq_url = u, rq_body = b, rq_params = [], rq_responseType = None,
      rq_accept = None\<rparr>"

text \<open>
  The backend behind \<open>apiClient\<close> is a parameter: from its state and a request it gives a
  rejection or a response, and its next state. The world of a gateway call is that state,
  the requests sent so far and the files handed to the browser for download (name and
  content). Requests are answered in the order in which they are sent.
\<close>

type_synonym 'b transport = "'b \<Rightarrow> request \<Rightarrow> (api_error + api_response) \<times> 'b"

record 'b world =
  backend :: 'b
  sent :: "request list"
  downloads :: "(string \<times> api_response) list"

definition call_api ::
  "'b transport \<Rightarrow> request \<Rightarrow> 'b world \<Rightarrow> (api_error + api_response) \<times> 'b world" where
  "call_api net rq w =
     (case net (backend w) rq of
        (res, b') \<Rightarrow> (res, w\<lparr>backend := b', sent := sent w @ [rq]\<rparr>))"

subsection \<open>The result envelope\<close>

text \<open>
  The object every gateway returns; a property a gateway leaves out is \<open>Undefined\<close>
  (\<open>None\<close> for \<open>error\<close>).
\<close>

record envelope =
  success :: bool
  data :: jsval
  message :: jsval
  pagination :: jsval
  errors :: jsval
  error :: "body option"
  count :: jsval

definition ok_env :: "jsval \<Rightarrow> jsval \<Rightarrow> envelope" where
  "ok_env d m =
     \<lparr>success = True, data = d, message = m, pagination = Undefined, errors = Undefined,
      error = None, count = Undefined\<rparr>"

definition fail_env :: "jsval \<Rightarrow> envelope" where
  "fail_env m =
     \<lparr>success = False, data = Undefined, message = m, pagination = Undefined,
      errors = Undefined, error = None, count = Undefined\<rparr>"

text \<open>
  \<open>try { ... } catch (error) { return ... }\<close>: the body ends in a thrown error or in
  the envelope it returns; the handler turns the error into an envelope. The second
  function continues the body after an awaited call.
\<close>

definition try_catch ::
  "(api_error + envelope) \<times> 'w \<Rightarrow> (api_error \<Rightarrow> envelope) \<Rightarrow> envelope \<times> 'w" where
  "try_catch r h = (case r of (Inl e, w) \<Rightarrow> (h e, w) | (Inr v, w) \<Rightarrow> (v, w))"

definition on_response ::
  "(api_error + api_response) \<times> 'w \<Rightarrow> (api_response \<Rightarrow> envelope) \<Rightarrow> (api_error + envelope) \<times> 'w"
  where
  "on_response r f = (case r of (Inl e, w) \<Rightarrow> (Inl e, w) | (Inr resp, w) \<Rightarrow> (Inr (f resp), w))"

text \<open>A body that ends by returning what another gateway returned.\<close>

definition returned :: "envelope \<times> 'w \<Rightarrow> (api_error + envelope) \<times> 'w" where
  "returned r = (case r of (v, w) \<Rightarrow> (Inr v, w))"

subsection \<open>\<open>attendanceAPI\<close>\<close>

text \<open>
  The properties a caller may put into the filters of a list operation; which of them a
  gateway reads is in its query below.
\<close>

record attendance_filters =
  af_page :: "safe_int option"
  af_limit :: "safe_int option"
  af_startDate :: "string option"
  af_endDate :: "string option"
  af_serviceType :: "string option"
  af_sortBy :: "string option"
  af_sortOrder :: "string option"
  af_search :: "string option"

text \<open>The default \<open>filters = {}\<close>.\<close>

definition no_attendance_filters :: attendance_filters where
  "no_attendance_filters =
     \<lparr>af_page = None, af_limit = None, af_startDate = None, af_endDate = None,
      af_serviceType = None, af_sortBy = None, af_sortOrder = None, af_search = None\<rparr>"

definition attendance_query :: "attendance_filters \<Rightarrow> (string \<times> string) list" where
  "attendance_query filters =
     append_num ''page'' (af_page filters) @
     append_num ''limit'' (af_limit filters) @
     append_str ''startDate'' (af_startDate filters) @
     append_str ''endDate'' (af_endDate filters) @
     append_unless_all ''serviceType'' (af_serviceType filters) @
     append_str ''sortBy'' (af_sortBy filters) @
     append_str ''sortOrder'' (af_sortOrder filters)"

definition getAttendanceRecords ::
  "'b transport \<Rightarrow> attendance_filters \<Rightarrow> 'b world \<Rightarrow> envelope \<times> 'b world" where
  "getAttendanceRecords net filters w =
     try_catch
       (on_response
          (call_api net
             (mk_request ''get'' (''/attendance?'' @ params_toString (attendance_query filters))
                Undefined) w)
          (\<lambda>response.
             (ok_env (b_data (json_body response))
                (msg_or (b_message (json_body response)) ''Attendance records retrieved successfully''))
             \<lparr>pagination := b_pagination (json_body response)\<rparr>))
       (\<lambda>err. (fail_env (msg_or (resp_message err) ''Failed to fetch attendance records''))
                \<lparr>error := err_data err\<rparr>)"

definition getAttendanceById ::
  "'b transport \<Rightarrow> string option \<Rightarrow> 'b world \<Rightarrow> envelope \<times> 'b world" where
  "getAttendanceById net ident w =
     try_catch
       (if \<not> truthy ident then (Inl (js_error ''Attendance ID is required''), w)
        else on_response
          (call_api net (mk_request ''get'' (''/attendance/'' @ the ident) Undefined) w)
          (\<lambda>response.
             ok_env (b_data (json_body response))
               (msg_or (b_message (json_body response)) ''Attendance record retrieved successfully'')))
       (\<lambda>err. (fail_env (msg_or (resp_message err) ''Failed to fetch attendance record''))
                \<lparr>error := err_data err\<rparr>)"

text \<open>
  The record handed to \<open>createAttendance\<close> and \<open>updateAttendance\<close>: date and service
  type are strings, the counts are integers, \<open>members\<close> is handed through.
\<close>

record attendance_data =
  ad_date :: "string option"
  ad_serviceType :: "string option"
  ad_totalAttendance :: "safe_int option"
  ad_adults :: "safe_int option"
  ad_youth :: "safe_int option"
  ad_children :: "safe_int option"
  ad_visitors :: "safe_int option"
  ad_notes :: "string option"
  ad_members :: jsval

text \<open>The first of the three checks that fails throws; \<open>None\<close> when all pass.\<close>

definition attendance_invalid :: "attendance_data \<Rightarrow> string option" where
  "attendance_invalid attendanceData =
     (if \<not> truthy (ad_date attendanceData) then Some ''Date is required''
      else if \<not> truthy (ad_serviceType attendanceData) then Some ''Service type is required''
      else if ad_totalAttendance attendanceData = None \<or> int_of (the (ad_totalAttendance attendanceData)) < 0
      then Some ''Total attendance must be a non-negative number''
      else None)"

definition attendance_body :: "attendance_data \<Rightarrow> jsval" where
  "attendance_body attendanceData =
     Obj [(''date'', str_of (ad_date attendanceData)),
          (''serviceType'', str_of (ad_serviceType attendanceData)),
          (''totalAttendance'', parseInt (ad_totalAttendance attendanceData)),
          (''adults'', parseInt_or_zero (ad_adults attendanceData)),
          (''youth'', parseInt_or_zero (ad_youth attendanceData)),
          (''children'', parseInt_or_zero (ad_children attendanceData)),
          (''visitors'', parseInt_or_zero (ad_visitors attendanceData)),
          (''notes'', Str (str_or (ad_notes attendanceData) [])),
          (''members'', js_or (ad_members attendanceData) (Arr []))]"

definition createAttendance ::
  "'b transport \<Rightarrow> attendance_data \<Rightarrow> 'b world \<Rightarrow> envelope \<times> 'b world" where
  "createAttendance net attendanceData w =
     try_catch
       (case attendance_invalid attendanceData of
          Some m \<Rightarrow> (Inl (js_error m), w)
        | None \<Rightarrow>
            on_response
              (call_api net (mk_request ''post'' ''/attendance'' (attendance_body attendanceData)) w)
              (\<lambda>response.
                 ok_env (b_data (json_body response))
                   (msg_or (b_message (json_body response)) ''Attendance recorded successfully'')))
       (\<lambda>err. (fail_env (msg_or (js_or (resp_message err) (Str (err_message err)))
                            ''Failed to record attendance''))
                \<lparr>errors := resp_errors err\<rparr>)"

definition updateAttendance ::
  "'b transport \<Rightarrow> string option \<Rightarrow> attendance_data \<Rightarrow> 'b world \<Rightarrow> envelope \<times> 'b world" where
  "updateAttendance net ident attendanceData w =
     try_catch
       (if \<not> truthy ident then (Inl (js_error ''Attendance ID is required''), w)
        else case attendance_invalid attendanceData of
          Some m \<Rightarrow> (Inl (js_error m), w)
        | None \<Rightarrow>
            on_response
              (call_api net
                 (mk_request ''put'' (''/attendance/'' @ the ident) (attendance_body attendanceData)) w)
              (\<lambda>response.
                 ok_env (b_data (json_body response))
                   (msg_or (b_message (json_body response)) ''Attendance updated successfully'')))
       (\<lambda>err. (fail_env (msg_or (js_or (resp_message err) (Str (err_message err)))
                            ''Failed to update attendance''))
                \<lparr>errors := resp_errors err\<rparr>)"

definition deleteAttendance ::
  "'b transport \<Rightarrow> string option \<Rightarrow> 'b world \<Rightarrow> envelope \<times> 'b world" where
  "deleteAttendance net ident w =
     try_catch
       (if \<not> truthy ident then (Inl (js_error ''Attendance ID is required''), w)
        else on_response
          (call_api net (mk_request ''delete'' (''/attendance/'' @ the ident) Undefined) w)
          (\<lambda>response.
             ok_env (b_data (json_body response))
               (msg_or (b_message (json_body response)) ''Attendance record deleted successfully'')))
       (\<lambda>err. fail_env (msg_or (resp_message err) ''Failed to delete attendance record''))"

text \<open>\<open>period = 'month'\<close> when the argument is \<open>undefined\<close>.\<close>

definition getAttendanceStats ::
  "'b transport \<Rightarrow> string option \<Rightarrow> 'b world \<Rightarrow> envelope \<times> 'b world" where
  "getAttendanceStats net period_arg w =
     (let period = (case period_arg of None \<Rightarrow> ''month'' | Some p \<Rightarrow> p) in
      try_catch
        (if period \<notin> set [''week'', ''month'', ''year'']
         then (Inl (js_error ''Period must be one of: week, month, year''), w)
         else on_response
           (call_api net (mk_request ''get'' (''/attendance/stats?period='' @ period) Undefined) w)
           (\<lambda>response.
              ok_env (b_data (json_body response))
                (msg_or (b_message (json_body response))
                   ''Attendance statistics retrieved successfully'')))
        (\<lambda>err. (fail_env (msg_or (js_or (resp_message err) (Str (err_message err)))
                             ''Failed to fetch attendance statistics''))
                 \<lparr>data := Obj [(''totalRecords'', Num 0), (''totalAttendance'', Num 0),
                               (''averageAttendance'', Num 0), (''highestAttendance'', Num 0),
                               (''lowestAttendance'', Num 0)]\<rparr>))"

definition getServiceTypes :: "'b transport \<Rightarrow> 'b world \<Rightarrow> envelope \<times> 'b world" where
  "getServiceTypes net w =
     try_catch
       (on_response
          (call_api net (mk_request ''get'' ''/attendance/service-types'' Undefined) w)
          (\<lambda>response.
             ok_env (b_data (json_body response))
               (msg_or (b_message (json_body response)) ''Service types retrieved successfully'')))
       (\<lambda>err. (fail_env (msg_or (resp_message err) ''Failed to fetch service types''))
                \<lparr>data := Arr (map Str
                    [''Sunday Fire Service'', ''Sunday School'', ''Sunday Main Service'',
                     ''Tuesday Bible Study'', ''Wednesday Prayer'', ''Thursday Faith Clinic'',
                     ''Friday Night Service'', ''Holy Ghost Service'', ''Special Program''])\<rparr>)"

definition getMembersForAttendance :: "'b transport \<Rightarrow> 'b world \<Rightarrow> envelope \<times> 'b world" where
  "getMembersForAttendance net w =
     try_catch
       (on_response
          (call_api net (mk_request ''get'' ''/attendance/members'' Undefined) w)
          (\<lambda>response.
             ok_env (b_data (json_body response))
               (msg_or (b_message (json_body response)) ''Members retrieved successfully'')))
       (\<lambda>err. (fail_env (msg_or (resp_message err) ''Failed to fetch members''))
                \<lparr>data := Arr []\<rparr>)"

text \<open>
  The creation of the link and the click on it: the browser saves the blob built from
  \<open>response.data\<close> under the file name.
\<close>

definition download :: "string \<Rightarrow> api_response \<Rightarrow> 'b world \<Rightarrow> 'b world" where
  "download filename content w = w\<lparr>downloads := downloads w @ [(filename, content)]\<rparr>"

record report_filters =
  rf_format :: "string option"
  rf_startDate :: "string option"
  rf_endDate :: "string option"
  rf_serviceType :: "string option"

definition str_or_null :: "string option \<Rightarrow> jsval" where
  "str_or_null v = (if truthy v then Str (the v) else Null)"

text \<open>
  \<open>today\<close> is \<open>new Date().toISOString().split('T')[0]\<close>, the date part of the current
  time.
\<close>

definition generateReport ::
  "'b transport \<Rightarrow> string \<Rightarrow> report_filters \<Rightarrow> 'b world \<Rightarrow> envelope \<times> 'b world" where
  "generateReport net today filters w =
     (let format = str_or (rf_format filters) ''csv'';
          reportData = (\<lambda>fmt. Obj [(''format'', Str fmt),
                           (''startDate'', str_or_null (rf_startDate filters)),
                           (''endDate'', str_or_null (rf_endDate filters)),
                           (''serviceType'', Str (str_or (rf_serviceType filters) ''all''))])
      in try_catch
        (if format = ''csv'' then
           (case call_api net
                   ((mk_request ''post'' ''/attendance/report'' (reportData format))
                      \<lparr>rq_responseType := Some ''blob'', rq_accept := Some ''text/csv''\<rparr>) w of
              (Inl e, w') \<Rightarrow> (Inl e, w')
            | (Inr response, w') \<Rightarrow>
                (let filename = ''attendance_report_'' @ today @ ''.csv'' in
                 (Inr ((ok_env (Obj [(''filename'', Str filename), (''type'', Str ''download'')])
                          (Str ''CSV report downloaded successfully''))),
                  download filename response w')))
         else
           on_response
             (call_api net (mk_request ''post'' ''/attendance/report'' (reportData ''json'')) w)
             (\<lambda>response.
                (ok_env (b_data (json_body response))
                   (msg_or (b_message (json_body response)) ''Report generated successfully''))
                \<lparr>count := b_count (json_body response)\<rparr>))
        (\<lambda>err. fail_env (msg_or (resp_message err) ''Failed to generate report'')))"

subsection \<open>Bulk creation\<close>

text \<open>
  An element of the array \<open>Promise.allSettled\<close> resolves with, and the envelope as the
  object it is for a reader of its properties.
\<close>

datatype settled_result = Fulfilled envelope | RejectedP api_error

fun is_successful :: "settled_result \<Rightarrow> bool" where
  "is_successful (Fulfilled v) = success v"
| "is_successful (RejectedP e) = False"

fun is_failed :: "settled_result \<Rightarrow> bool" where
  "is_failed (Fulfilled v) = (\<not> success v)"
| "is_failed (RejectedP e) = True"

definition body_obj :: "body \<Rightarrow> jsval" where
  "body_obj b =
     object [(''data'', b_data b), (''message'', b_message b),
             (''pagination'', b_pagination b), (''count'', b_count b), (''errors'', b_errors b)]"

definition envelope_obj :: "envelope \<Rightarrow> jsval" where
  "envelope_obj v =
     object [(''success'', Bool (success v)), (''data'', data v), (''message'', message v),
             (''pagination'', pagination v), (''errors'', errors v),
             (''error'', case error v of None \<Rightarrow> Undefined | Some b \<Rightarrow> body_obj b),
             (''count'', count v)]"

fun settled_obj :: "settled_result \<Rightarrow> jsval" where
  "settled_obj (Fulfilled v) = Obj [(''status'', Str ''fulfilled''), (''value'', envelope_obj v)]"
| "settled_obj (RejectedP e) =
     Obj [(''status'', Str ''rejected''),
          (''reason'', Obj [(''message'', Str (err_message e))])]"

text \<open>
  \<open>records.map(create)\<close> followed by \<open>Promise.allSettled\<close>: one call of the creating
  gateway per record, each on the world the one before left; a gateway never rejects, so
  every element is fulfilled.
\<close>

fun create_each ::
  "('a \<Rightarrow> 'w \<Rightarrow> envelope \<times> 'w) \<Rightarrow> 'a list \<Rightarrow> 'w \<Rightarrow> settled_result list \<times> 'w" where
  "create_each create [] w = ([], w)"
| "create_each create (r # rs) w =
     (case create r w of
        (v, w') \<Rightarrow> (case create_each create rs w' of (vs, w'') \<Rightarrow> (Fulfilled v # vs, w'')))"

definition bulk_report :: "nat \<Rightarrow> settled_result list \<Rightarrow> envelope" where
  "bulk_report n results =
     (let successful = filter is_successful results;
          failed = filter is_failed results
      in \<lparr>success = (length failed = 0),
          data = Obj [(''successful'', Num (int (length successful))),
                      (''failed'', Num (int (length failed))),
                      (''total'', Num (int n)),
                      (''results'', Arr (map settled_obj results))],
          message = Str (''Bulk create completed: '' @ show_nat (length successful)
                           @ '' successful, '' @ show_nat (length failed) @ '' failed''),
          pagination = Undefined, errors = Undefined, error = None, count = Undefined\<rparr>)"

definition bulkCreateAttendance ::
  "'b transport \<Rightarrow> attendance_data list \<Rightarrow> 'b world \<Rightarrow> envelope \<times> 'b world" where
  "bulkCreateAttendance net attendanceRecords w =
     try_catch
       (if length attendanceRecords = 0
        then (Inl (js_error ''Attendance records array is required''), w)
        else (case create_each (createAttendance net) attendanceRecords w of
                (results, w') \<Rightarrow> (Inr (bulk_report (length attendanceRecords) results), w')))
       (\<lambda>err. fail_env (msg_or (Str (err_message err)) ''Failed to bulk create attendance records''))"

definition searchAttendance ::
  "'b transport \<Rightarrow> string option \<Rightarrow> attendance_filters \<Rightarrow> 'b world \<Rightarrow> envelope \<times> 'b world" where
  "searchAttendance net searchTerm filters w =
     try_catch
       (if \<not> truthy searchTerm \<or> length (trim (the searchTerm)) = 0
        then returned (getAttendanceRecords net filters w)
        else returned (getAttendanceRecords net
               (filters\<lparr>af_serviceType :=
                   (if str_includes (the searchTerm) ''service'' then searchTerm
                    else af_serviceType filters)\<rparr>) w))
       (\<lambda>err. (fail_env (msg_or (Str (err_message err)) ''Failed to search attendance records''))
                \<lparr>data := Arr []\<rparr>)"

definition getAttendanceSummary ::
  "'b transport \<Rightarrow> string option \<Rightarrow> 'b world \<Rightarrow> envelope \<times> 'b world" where
  "getAttendanceSummary net period_arg w =
     (let period = (case period_arg of None \<Rightarrow> ''month'' | Some p \<Rightarrow> p) in
      try_catch
        (case getAttendanceStats net (Some period) w of
           (stats, w1) \<Rightarrow>
             if \<not> success stats then (Inr stats, w1)
             else
               (case getAttendanceRecords net
                       (no_attendance_filters\<lparr>af_limit := Some (Safe 10), af_sortBy := Some ''date'',
                                               af_sortOrder := Some ''DESC''\<rparr>) w1 of
                  (recentRecords, w2) \<Rightarrow>
                    (Inr (ok_env (Obj [(''stats'', data stats),
                                       (''recentRecords'',
                                          if success recentRecords then data recentRecords
                                          else Arr []),
                                       (''period'', Str period)])
                            (Str ''Attendance summary retrieved successfully'')), w2)))
        (\<lambda>err. fail_env (msg_or (Str (err_message err)) ''Failed to get attendance summary'')))"

subsection \<open>\<open>eventsAPI\<close>\<close>

text \<open>
  A property of the filters of \<open>getEvents\<close> is absent, present with the value
  \<open>undefined\<close>, or given. Reading it gives \<open>undefined\<close> in the first two cases; the
  difference shows where an object is spread over defaults.
\<close>

datatype 'a property = Absent | Undef | Given 'a

fun value_of :: "'a property \<Rightarrow> 'a option" where
  "value_of Absent = None"
| "value_of Undef = None"
| "value_of (Given x) = Some x"

record event_filters =
  ef_page :: "safe_int property"
  ef_limit :: "safe_int property"
  ef_search :: "string property"
  ef_status :: "string property"
  ef_category :: "string property"
  ef_upcoming :: "bool property"
  ef_sortBy :: "string property"
  ef_sortOrder :: "string property"
  ef_startDate :: "string property"
  ef_endDate :: "string property"

definition no_event_filters :: event_filters where
  "no_event_filters =
     \<lparr>ef_page = Absent, ef_limit = Absent, ef_search = Absent, ef_status = Absent,
      ef_category = Absent, ef_upcoming = Absent, ef_sortBy = Absent, ef_sortOrder = Absent,
      ef_startDate = Absent, ef_endDate = Absent\<rparr>"

definition events_query :: "event_filters \<Rightarrow> (string \<times> string) list" where
  "events_query filters =
     append_num ''page'' (value_of (ef_page filters)) @
     append_num ''limit'' (value_of (ef_limit filters)) @
     append_str ''search'' (value_of (ef_search filters)) @
     append_unless_all ''status'' (value_of (ef_status filters)) @
     append_unless_all ''category'' (value_of (ef_category filters)) @
     append_bool ''upcoming'' (value_of (ef_upcoming filters)) @
     append_str ''sortBy'' (value_of (ef_sortBy filters)) @
     append_str ''sortOrder'' (value_of (ef_sortOrder filters))"

definition getEvents ::
  "'b transport \<Rightarrow> event_filters \<Rightarrow> 'b world \<Rightarrow> envelope \<times> 'b world" where
  "getEvents net filters w =
     try_catch
       (on_response
          (call_api net
             (mk_request ''get'' (''/events?'' @ params_toString (events_query filters)) Undefined) w)
          (\<lambda>response.
             (ok_env (b_data (json_body response))
                (msg_or (b_message (json_body response)) ''Events retrieved successfully''))
             \<lparr>pagination := b_pagination (json_body response)\<rparr>))
       (\<lambda>err. (fail_env (msg_or (resp_message err) ''Failed to fetch events''))
                \<lparr>error := err_data err\<rparr>)"

definition getEventById ::
  "'b transport \<Rightarrow> string option \<Rightarrow> 'b world \<Rightarrow> envelope \<times> 'b world" where
  "getEventById net ident w =
     try_catch
       (if \<not> truthy ident then (Inl (js_error ''Event ID is required''), w)
        else on_response
          (call_api net (mk_request ''get'' (''/events/'' @ the ident) Undefined) w)
          (\<lambda>response.
             ok_env (b_data (json_body response))
               (msg_or (b_message (json_body response)) ''Event details retrieved successfully'')))
       (\<lambda>err. (fail_env (msg_or (resp_message err) ''Failed to fetch event details''))
                \<lparr>error := err_data err\<rparr>)"

text \<open>
  The record handed to \<open>createEvent\<close> and \<open>updateEvent\<close>: title, description and
  location are strings, the number of attendees and the fee are integers, the other
  properties are handed through.
\<close>

record event_data =
  ed_title :: "string option"
  ed_description :: "string option"
  ed_date :: jsval
  ed_time :: jsval
  ed_endTime :: jsval
  ed_location :: "string option"
  ed_category :: jsval
  ed_maxAttendees :: "safe_int option"
  ed_isRecurring :: jsval
  ed_recurringPattern :: jsval
  ed_status :: jsval
  ed_registrationRequired :: jsval
  ed_registrationDeadline :: jsval
  ed_eventFee :: "safe_int option"
  ed_tags :: jsval
  ed_image :: jsval

text \<open>\<open>!s?.trim()\<close>.\<close>

definition blank :: "string option \<Rightarrow> bool" where
  "blank v = (case v of None \<Rightarrow> True | Some s \<Rightarrow> trim s = [])"

definition trimmed :: "string option \<Rightarrow> jsval" where
  "trimmed v = (case v of None \<Rightarrow> Undefined | Some s \<Rightarrow> Str (trim s))"

definition event_invalid :: "event_data \<Rightarrow> string option" where
  "event_invalid eventData =
     (if blank (ed_title eventData) then Some ''Event title is required''
      else if blank (ed_description eventData) then Some ''Event description is required''
      else if \<not> js_truthy (ed_date eventData) then Some ''Event date is required''
      else if \<not> js_truthy (ed_time eventData) then Some ''Event time is required''
      else if blank (ed_location eventData) then Some ''Event location is required''
      else if \<not> js_truthy (ed_category eventData) then Some ''Event category is required''
      else None)"

text \<open>
  \<open>x ? parseInt(x) : null\<close>, \<open>x ? parseFloat(x) : 0\<close>, \<open>Array.isArray(x) ? x : []\<close>.
\<close>

definition int_or_null :: "safe_int option \<Rightarrow> jsval" where
  "int_or_null v = (if truthy_num v then Num (int_of (the v)) else Null)"

definition fee_or_zero :: "safe_int option \<Rightarrow> jsval" where
  "fee_or_zero v = (if truthy_num v then Num (int_of (the v)) else Num 0)"

fun array_or_empty :: "jsval \<Rightarrow> jsval" where
  "array_or_empty (Arr xs) = Arr xs"
| "array_or_empty v = Arr []"

definition event_body :: "event_data \<Rightarrow> jsval" where
  "event_body eventData =
     Obj [(''title'', trimmed (ed_title eventData)),
          (''description'', trimmed (ed_description eventData)),
          (''date'', ed_date eventData),
          (''time'', ed_time eventData),
          (''endTime'', js_or (ed_endTime eventData) Null),
          (''location'', trimmed (ed_location eventData)),
          (''category'', ed_category eventData),
          (''maxAttendees'', int_or_null (ed_maxAttendees eventData)),
          (''isRecurring'', Bool (js_truthy (ed_isRecurring eventData))),
          (''recurringPattern'', js_or (ed_recurringPattern eventData) Null),
          (''registrationRequired'', Bool (js_truthy (ed_registrationRequired eventData))),
          (''registrationDeadline'', js_or (ed_registrationDeadline eventData) Null),
          (''eventFee'', fee_or_zero (ed_eventFee eventData)),
          (''tags'', array_or_empty (ed_tags eventData)),
          (''image'', js_or (ed_image eventData) Null)]"

definition createEvent ::
  "'b transport \<Rightarrow> event_data \<Rightarrow> 'b world \<Rightarrow> envelope \<times> 'b world" where
  "createEvent net eventData w =
     try_catch
       (case event_invalid eventData of
          Some m \<Rightarrow> (Inl (js_error m), w)
        | None \<Rightarrow>
            on_response
              (call_api net (mk_request ''post'' ''/events'' (event_body eventData)) w)
              (\<lambda>response.
                 ok_env (b_data (json_body response))
                   (msg_or (b_message (json_body response)) ''Event created successfully'')))
       (\<lambda>err. (fail_env (msg_or (js_or (resp_message err) (Str (err_message err)))
                            ''Failed to create event''))
                \<lparr>errors := resp_errors err\<rparr>)"

text \<open>
  \<open>...(x !== undefined && {k: v})\<close>: the property is part of the update when \<open>x\<close> is
  given.
\<close>

definition given :: "jsval \<Rightarrow> string \<Rightarrow> jsval \<Rightarrow> (string \<times> jsval) list" where
  "given x k v = (if x \<noteq> Undefined then [(k, v)] else [])"

definition update_invalid :: "event_data \<Rightarrow> string option" where
  "update_invalid eventData =
     (if ed_title eventData \<noteq> None \<and> blank (ed_title eventData)
      then Some ''Event title cannot be empty''
      else if ed_description eventData \<noteq> None \<and> blank (ed_description eventData)
      then Some ''Event description cannot be empty''
      else if ed_location eventData \<noteq> None \<and> blank (ed_location eventData)
      then Some ''Event location cannot be empty''
      else None)"

definition updateData :: "event_data \<Rightarrow> jsval" where
  "updateData eventData =
     Obj (given (str_of (ed_title eventData)) ''title'' (trimmed (ed_title eventData)) @
          given (str_of (ed_description eventData)) ''description''
            (trimmed (ed_description eventData)) @
          given (ed_date eventData) ''date'' (ed_date eventData) @
          given (ed_time eventData) ''time'' (ed_time eventData) @
          given (ed_endTime eventData) ''endTime'' (ed_endTime eventData) @
          given (str_of (ed_location eventData)) ''location'' (trimmed (ed_location eventData)) @
          given (ed_category eventData) ''category'' (ed_category eventData) @
          given (num_of (ed_maxAttendees eventData)) ''maxAttendees''
            (int_or_null (ed_maxAttendees eventData)) @
          given (ed_isRecurring eventData) ''isRecurring''
            (Bool (js_truthy (ed_isRecurring eventData))) @
          given (ed_recurringPattern eventData) ''recurringPattern''
            (ed_recurringPattern eventData) @
          given (ed_status eventData) ''status'' (ed_status eventData) @
          given (ed_registrationRequired eventData) ''registrationRequired''
            (Bool (js_truthy (ed_registrationRequired eventData))) @
          given (ed_registrationDeadline eventData) ''registrationDeadline''
            (ed_registrationDeadline eventData) @
          given (num_of (ed_eventFee eventData)) ''eventFee'' (fee_or_zero (ed_eventFee eventData)) @
          given (ed_tags eventData) ''tags'' (array_or_empty (ed_tags eventData)) @
          given (ed_image eventData) ''image'' (ed_image eventData))"

definition updateEvent ::
  "'b transport \<Rightarrow> string option \<Rightarrow> event_data \<Rightarrow> 'b world \<Rightarrow> envelope \<times> 'b world" where
  "updateEvent net ident eventData w =
     try_catch
       (if \<not> truthy ident then (Inl (js_error ''Event ID is required''), w)
        else case update_invalid eventData of
          Some m \<Rightarrow> (Inl (js_error m), w)
        | None \<Rightarrow>
            on_response
              (call_api net (mk_request ''put'' (''/events/'' @ the ident) (updateData eventData)) w)
              (\<lambda>response.
                 ok_env (b_data (json_body response))
                   (msg_or (b_message (json_body response)) ''Event updated successfully'')))
       (\<lambda>err. (fail_env (msg_or (js_or (resp_message err) (Str (err_message err)))
                            ''Failed to update event''))
                \<lparr>errors := resp_errors err\<rparr>)"

definition deleteEvent ::
  "'b transport \<Rightarrow> string option \<Rightarrow> 'b world \<Rightarrow> envelope \<times> 'b world" where
  "deleteEvent net ident w =
     try_catch
       (if \<not> truthy ident then (Inl (js_error ''Event ID is required''), w)
        else on_response
          (call_api net (mk_request ''delete'' (''/events/'' @ the ident) Undefined) w)
          (\<lambda>response.
             ok_env (b_data (json_body response))
               (msg_or (b_message (json_body response)) ''Event deleted successfully'')))
       (\<lambda>err. fail_env (msg_or (resp_message err) ''Failed to delete event''))"

definition getEventCategories :: "'b transport \<Rightarrow> 'b world \<Rightarrow> envelope \<times> 'b world" where
  "getEventCategories net w =
     try_catch
       (on_response
          (call_api net (mk_request ''get'' ''/events/categories'' Undefined) w)
          (\<lambda>response.
             ok_env (b_data (json_body response))
               (msg_or (b_message (json_body response)) ''Categories retrieved successfully'')))
       (\<lambda>err. (fail_env (msg_or (resp_message err) ''Failed to fetch categories''))
                \<lparr>data := Arr (map Str
                    [''Service'', ''Conference'', ''Seminar'', ''Workshop'', ''Outreach'',
                     ''Fellowship'', ''Youth Event'', ''Children Event'', ''Prayer Meeting'',
                     ''Special Program'', ''Other''])\<rparr>)"

definition getEventsStats :: "'b transport \<Rightarrow> 'b world \<Rightarrow> envelope \<times> 'b world" where
  "getEventsStats net w =
     try_catch
       (on_response
          (call_api net (mk_request ''get'' ''/events/stats'' Undefined) w)
          (\<lambda>response.
             ok_env (b_data (json_body response))
               (msg_or (b_message (json_body response)) ''Events statistics retrieved successfully'')))
       (\<lambda>err. (fail_env (msg_or (resp_message err) ''Failed to fetch events statistics''))
                \<lparr>data := Obj [(''totalEvents'', Num 0), (''upcomingEvents'', Num 0),
                              (''completedEvents'', Num 0), (''thisMonthEvents'', Num 0),
                              (''categoryStats'', Arr []), (''statusStats'', Arr [])]\<rparr>)"

text \<open>
  \<open>attendanceCount < 0\<close> is false for \<open>undefined\<close>, and \<open>parseInt(undefined)\<close> is
  \<open>NaN\<close>.
\<close>

definition updateEventAttendance ::
  "'b transport \<Rightarrow> string option \<Rightarrow> safe_int option \<Rightarrow> 'b world \<Rightarrow> envelope \<times> 'b world" where
  "updateEventAttendance net ident attendanceCount w =
     try_catch
       (if \<not> truthy ident then (Inl (js_error ''Event ID is required''), w)
        else if attendanceCount \<noteq> None \<and> int_of (the attendanceCount) < 0
        then (Inl (js_error ''Attendance count cannot be negative''), w)
        else on_response
          (call_api net
             (mk_request ''patch'' (''/events/'' @ the ident @ ''/attendance'')
                (Obj [(''attendanceCount'', parseInt attendanceCount)])) w)
          (\<lambda>response.
             ok_env (b_data (json_body response))
               (msg_or (b_message (json_body response)) ''Event attendance updated successfully'')))
       (\<lambda>err. fail_env (msg_or (js_or (resp_message err) (Str (err_message err)))
                           ''Failed to update event attendance''))"

text \<open>\<open>limit = 10\<close> when the argument is \<open>undefined\<close>.\<close>

definition getUpcomingEvents ::
  "'b transport \<Rightarrow> safe_int option \<Rightarrow> 'b world \<Rightarrow> envelope \<times> 'b world" where
  "getUpcomingEvents net limit_arg w =
     (let limit = (case limit_arg of None \<Rightarrow> Safe 10 | Some n \<Rightarrow> n) in
      try_catch
        (on_response
           (call_api net
              (mk_request ''get'' (''/events/upcoming?limit='' @ js_string limit) Undefined) w)
           (\<lambda>response.
              ok_env (b_data (json_body response))
                (msg_or (b_message (json_body response)) ''Upcoming events retrieved successfully'')))
        (\<lambda>err. (fail_env (msg_or (resp_message err) ''Failed to fetch upcoming events''))
                 \<lparr>data := Arr []\<rparr>))"

record export_filters =
  xf_format :: "string option"
  xf_status :: "string option"
  xf_category :: "string option"

definition exportEvents ::
  "'b transport \<Rightarrow> string \<Rightarrow> export_filters \<Rightarrow> 'b world \<Rightarrow> envelope \<times> 'b world" where
  "exportEvents net today filters w =
     (let format = str_or (xf_format filters) ''csv'';
          exportData = (\<lambda>fmt. [(''format'', fmt),
                           (''status'', str_or (xf_status filters) ''all''),
                           (''category'', str_or (xf_category filters) ''all'')])
      in try_catch
        (if format = ''csv'' then
           (case call_api net
                   ((mk_request ''get'' ''/events/export'' Undefined)
                      \<lparr>rq_params := exportData format, rq_responseType := Some ''blob'',
                       rq_accept := Some ''text/csv''\<rparr>) w of
              (Inl e, w') \<Rightarrow> (Inl e, w')
            | (Inr response, w') \<Rightarrow>
                (let filename = ''events_export_'' @ today @ ''.csv'' in
                 (Inr ((ok_env (Obj [(''filename'', Str filename), (''type'', Str ''download'')])
                          (Str ''CSV export downloaded successfully''))),
                  download filename response w')))
         else
           on_response
             (call_api net
                ((mk_request ''get'' ''/events/export'' Undefined)
                   \<lparr>rq_params := exportData ''json''\<rparr>) w)
             (\<lambda>response.
                (ok_env (b_data (json_body response))
                   (msg_or (b_message (json_body response)) ''Events exported successfully''))
                \<lparr>count := b_count (json_body response)\<rparr>))
        (\<lambda>err. fail_env (msg_or (resp_message err) ''Failed to export events'')))"

definition duplicateEvent ::
  "'b transport \<Rightarrow> string option \<Rightarrow> 'b world \<Rightarrow> envelope \<times> 'b world" where
  "duplicateEvent net ident w =
     try_catch
       (if \<not> truthy ident then (Inl (js_error ''Event ID is required''), w)
        else on_response
          (call_api net (mk_request ''post'' (''/events/'' @ the ident @ ''/duplicate'') Undefined) w)
          (\<lambda>response.
             ok_env (b_data (json_body response))
               (msg_or (b_message (json_body response)) ''Event duplicated successfully'')))
       (\<lambda>err. fail_env (msg_or (resp_message err) ''Failed to duplicate event''))"

definition bulkCreateEvents ::
  "'b transport \<Rightarrow> event_data list \<Rightarrow> 'b world \<Rightarrow> envelope \<times> 'b world" where
  "bulkCreateEvents net eventsData w =
     try_catch
       (if length eventsData = 0
        then (Inl (js_error ''Events data array is required''), w)
        else (case create_each (createEvent net) eventsData w of
                (results, w') \<Rightarrow> (Inr (bulk_report (length eventsData) results), w')))
       (\<lambda>err. fail_env (msg_or (Str (err_message err)) ''Failed to bulk create events''))"

definition searchEvents ::
  "'b transport \<Rightarrow> string option \<Rightarrow> event_filters \<Rightarrow> 'b world \<Rightarrow> envelope \<times> 'b world" where
  "searchEvents net searchTerm filters w =
     try_catch
       (if \<not> truthy searchTerm \<or> length (trim (the searchTerm)) = 0
        then returned (getEvents net filters w)
        else returned (getEvents net (filters\<lparr>ef_search := Given (trim (the searchTerm))\<rparr>) w))
       (\<lambda>err. (fail_env (msg_or (Str (err_message err)) ''Failed to search events''))
                \<lparr>data := Arr []\<rparr>)"

text \<open>
  \<open>{limit: 5, sortBy: 'date', sortOrder: 'DESC', ...filters}\<close>: a property that
  \<open>filters\<close> has, be its value \<open>undefined\<close>, replaces the default of the same name.
\<close>

definition summary_filters :: "event_filters \<Rightarrow> event_filters" where
  "summary_filters filters =
     filters\<lparr>ef_limit := (case ef_limit filters of Absent \<Rightarrow> Given (Safe 5) | p \<Rightarrow> p),
             ef_sortBy := (case ef_sortBy filters of Absent \<Rightarrow> Given ''date'' | p \<Rightarrow> p),
             ef_sortOrder := (case ef_sortOrder filters of Absent \<Rightarrow> Given ''DESC'' | p \<Rightarrow> p)\<rparr>"

definition getEventsSummary ::
  "'b transport \<Rightarrow> event_filters \<Rightarrow> 'b world \<Rightarrow> envelope \<times> 'b world" where
  "getEventsSummary net filters w =
     try_catch
       (case getEventsStats net w of
          (stats, w1) \<Rightarrow>
            if \<not> success stats then (Inr stats, w1)
            else
              (case getEvents net (summary_filters filters) w1 of
                 (recentEvents, w2) \<Rightarrow>
                   (case getUpcomingEvents net (Some (Safe 5)) w2 of
                      (upcomingEvents, w3) \<Rightarrow>
                        (Inr (ok_env
                                (Obj [(''stats'', data stats),
                                      (''recentEvents'',
                                         if success recentEvents then data recentEvents else Arr []),
                                      (''upcomingEvents'',
                                         if success upcomingEvents then data upcomingEvents
                                         else Arr [])])
                                (Str ''Events summary retrieved successfully'')), w3))))
       (\<lambda>err. fail_env (msg_or (Str (err_message err)) ''Failed to get events summary''))"

definition getEventsByCategory ::
  "'b transport \<Rightarrow> string option \<Rightarrow> 'b world \<Rightarrow> envelope \<times> 'b world" where
  "getEventsByCategory net category w =
     try_catch
       (if \<not> truthy category then (Inl (js_error ''Category is required''), w)
        else returned (getEvents net
               (no_event_filters\<lparr>ef_category := Given (the category),
                                  ef_limit := Given (Safe 50), ef_sortBy := Given ''date'',
                                  ef_sortOrder := Given ''ASC''\<rparr>) w))
       (\<lambda>err. (fail_env (msg_or (Str (err_message err)) ''Failed to get events by category''))
                \<lparr>data := Arr []\<rparr>)"

definition getEventsByDateRange ::
  "'b transport \<Rightarrow> string option \<Rightarrow> string option \<Rightarrow> 'b world \<Rightarrow> envelope \<times> 'b world" where
  "getEventsByDateRange net startDate endDate w =
     try_catch
       (if \<not> truthy startDate \<or> \<not> truthy endDate
        then (Inl (js_error ''Start date and end date are required''), w)
        else returned (getEvents net
               (no_event_filters\<lparr>ef_limit := Given (Safe 100), ef_sortBy := Given ''date'',
                                  ef_sortOrder := Given ''ASC''\<rparr>) w))
       (\<lambda>err. (fail_env (msg_or (Str (err_message err)) ''Failed to get events by date range''))
                \<lparr>data := Arr []\<rparr>)"

text \<open>
  \<open>allEvents.data.filter(event => event.date === today)\<close>: a \<open>TypeError\<close> when the
  data is not an array or an element is \<open>null\<close> or \<open>undefined\<close>.
\<close>

fun dated :: "string \<Rightarrow> jsval list \<Rightarrow> jsval list option" where
  "dated today [] = Some []"
| "dated today (event # events) =
     (case js_get event ''date'' of
        None \<Rightarrow> None
      | Some d \<Rightarrow>
          (case dated today events of
             None \<Rightarrow> None
           | Some rest \<Rightarrow> Some (if d = Str today then event # rest else rest)))"

definition getTodaysEvents :: "'b transport \<Rightarrow> string \<Rightarrow> 'b world \<Rightarrow> envelope \<times> 'b world" where
  "getTodaysEvents net today w =
     try_catch
       (case getEvents net
               (no_event_filters\<lparr>ef_limit := Given (Safe 50), ef_sortBy := Given ''time'',
                                  ef_sortOrder := Given ''ASC''\<rparr>) w of
          (allEvents, w') \<Rightarrow>
            if \<not> success allEvents then (Inr allEvents, w')
            else
              (case data allEvents of
                 Arr events \<Rightarrow>
                   (case dated today events of
                      Some todaysEvents \<Rightarrow>
                        (Inr (ok_env (Arr todaysEvents)
                                (Str (''Today'' @ [CHR 0x27] @ ''s events retrieved successfully''))), w')
                    | None \<Rightarrow> (Inl (js_error ''TypeError''), w'))
               | _ \<Rightarrow> (Inl (js_error ''TypeError''), w')))
       (\<lambda>err. (fail_env (Str (''Failed to get today'' @ [CHR 0x27] @ ''s events'')))
                \<lparr>data := Arr []\<rparr>)"


subsection \<open>The two helpers of \<open>eventsAPI\<close> that call no transport\<close>

text \<open>
  \<open>validateEventData\<close> returns \<open>{isValid, errors}\<close>. It has no \<open>try\<close>: reading
  \<open>eventData.title\<close> of \<open>null\<close> or \<open>undefined\<close> throws a \<open>TypeError\<close> to the caller.
  What \<open>Date\<close> makes of a value is a parameter: \<open>date_ms x\<close> is the time value of
  \<open>new Date(x)\<close>, \<open>clock_ms x\<close> that of \<open>new Date(`2000-01-01T${x}`)\<close> (\<open>None\<close> for
  an invalid date, which compares false with everything), and \<open>today_start\<close> is
  \<open>new Date().setHours(0, 0, 0, 0)\<close>.
\<close>

record validation =
  isValid :: bool
  validation_errors :: "string list"

definition type_error :: api_error where
  "type_error = js_error ''TypeError''"

definition validateEventData ::
  "(jsval \<Rightarrow> int option) \<Rightarrow> (jsval \<Rightarrow> int option) \<Rightarrow> int \<Rightarrow> event_data option
     \<Rightarrow> api_error + validation" where
  "validateEventData date_ms clock_ms today_start arg =
     (case arg of
        None \<Rightarrow> Inl type_error
      | Some eventData \<Rightarrow>
          (let errors =
             (if blank (ed_title eventData) then [''Event title is required'']
              else if js_length (the (ed_title eventData)) < 3 \<or>
                      200 < js_length (the (ed_title eventData))
              then [''Event title must be between 3 and 200 characters''] else []) @
             (if blank (ed_description eventData) then [''Event description is required'']
              else if js_length (the (ed_description eventData)) < 10
              then [''Event description must be at least 10 characters''] else []) @
             (if \<not> js_truthy (ed_date eventData) then [''Event date is required'']
              else if (case date_ms (ed_date eventData) of None \<Rightarrow> False
                       | Some t \<Rightarrow> t < today_start)
              then [''Event date cannot be in the past''] else []) @
             (if \<not> js_truthy (ed_time eventData) then [''Event time is required''] else []) @
             (if blank (ed_location eventData) then [''Event location is required''] else []) @
             (if \<not> js_truthy (ed_category eventData) then [''Event category is required'']
              else []) @
             (if truthy_num (ed_maxAttendees eventData) \<and>
                 (int_of (the (ed_maxAttendees eventData)) < 1 \<or>
                  50000 < int_of (the (ed_maxAttendees eventData)))
              then [''Max attendees must be between 1 and 50,000''] else []) @
             (if js_truthy (ed_time eventData) \<and> js_truthy (ed_endTime eventData) \<and>
                 (case (clock_ms (ed_endTime eventData), clock_ms (ed_time eventData)) of
                    (Some endTime, Some startTime) \<Rightarrow> endTime \<le> startTime
                  | _ \<Rightarrow> False)
              then [''End time must be after start time''] else []) @
             (if js_truthy (ed_isRecurring eventData) \<and>
                 \<not> js_truthy (ed_recurringPattern eventData)
              then [''Recurring pattern is required for recurring events''] else []) @
             (if truthy_num (ed_eventFee eventData) \<and> int_of (the (ed_eventFee eventData)) < 0
              then [''Event fee cannot be negative''] else [])
           in Inr \<lparr>isValid = (length errors = 0), validation_errors = errors\<rparr>))"

text \<open>
  \<open>formatEventForDisplay\<close> returns \<open>null\<close> for a falsy event and otherwise the event
  with its display properties, which \<open>Date\<close> and \<open>Intl\<close> compute; that object is the
  parameter \<open>display\<close>.
\<close>

definition formatEventForDisplay :: "(jsval \<Rightarrow> jsval) \<Rightarrow> jsval \<Rightarrow> jsval" where
  "formatEventForDisplay display event = (if \<not> js_truthy event then Null else display event)"

subsection \<open>States, schedules and effects the properties speak about\<close>

text \<open>
  The state of a freshly loaded module (\<open>let isRefreshing = false; let failedQueue = []\<close>)
  over a given storage, with empty logs.
\<close>

definition initial_client :: "storage \<Rightarrow> client" where
  "initial_client st =
     \<lparr>store = st, isRefreshing = False, failedQueue = [], awaiting = None, refreshCalls = [],
      settled = [], logoutEvents = 0, pathname = ''/admin'', navigations = [], toasts = []\<rparr>"

text \<open>No refresh is in flight and nothing is queued.\<close>

definition idle :: "client \<Rightarrow> bool" where
  "idle c \<longleftrightarrow> \<not> isRefreshing c \<and> awaiting c = None \<and> failedQueue c = []"

text \<open>
  The relation between the flag, the queue and the suspended invocation that every
  callback preserves: the flag is set exactly while an invocation is suspended at the
  refresh call, and the queue is empty otherwise.
\<close>

definition coherent :: "client \<Rightarrow> bool" where
  "coherent c \<longleftrightarrow>
     (case awaiting c of
        None \<Rightarrow> \<not> isRefreshing c \<and> failedQueue c = []
      | Some (req, rt) \<Rightarrow> isRefreshing c \<and> retry req)"

text \<open>An error that carries a 401 response for a request not yet marked \<open>_retry\<close>.\<close>

definition fresh_401 :: "http_error \<Rightarrow> bool" where
  "fresh_401 err \<longleftrightarrow>
     (case e_response err of None \<Rightarrow> False | Some r \<Rightarrow> status r = 401) \<and> \<not> retry (e_config err)"

text \<open>
  What the outcome of one refresh call prescribes for a request that waited for it:
  resubmission with the new token, or rejection with the failure.
\<close>

definition refresh_outcome :: "refresh_result \<Rightarrow> config \<Rightarrow> outcome" where
  "refresh_outcome res q =
     (case res of
        RefreshRejected e \<Rightarrow> Rejected e
      | RefreshResolved d \<Rightarrow>
          (case newAccessToken d of
             Some tok \<Rightarrow>
               Resubmitted (q\<lparr>headers := (headers q)(''Authorization'' \<mapsto> ''Bearer '' @ tok)\<rparr>)
           | None \<Rightarrow> Rejected (JsError ''No refresh token available'')))"

text \<open>
  The effects of a failed refresh attempt for the request \<open>req\<close> with failure \<open>e\<close>,
  from the state \<open>c\<close> before the callback to the state \<open>c'\<close> after it.
\<close>

definition failure_cleanup :: "client \<Rightarrow> client \<Rightarrow> config \<Rightarrow> reason \<Rightarrow> bool" where
  "failure_cleanup c c' req e \<longleftrightarrow>
     getItem (store c') TOKEN_KEY = None \<and>
     getItem (store c') REFRESH_KEY = None \<and>
     logoutEvents c' = Suc (logoutEvents c) \<and>
     settled c' = settled c @ map (\<lambda>q. (req_id q, Rejected e)) (failedQueue c)
                            @ [(req_id req, Rejected e)] \<and>
     failedQueue c' = [] \<and> \<not> isRefreshing c' \<and> awaiting c' = None \<and>
     refreshCalls c' = refreshCalls c"

text \<open>
  Where the handler looks for the new access token in the body of the refresh response:
  in \<open>data.data\<close> when that is there, in \<open>data\<close> itself otherwise; in either place
  \<open>accessToken\<close> comes first and \<open>token\<close> is read when \<open>accessToken\<close> is absent or
  empty. The token found is not empty.
\<close>

definition found_in :: "refresh_body \<Rightarrow> string \<Rightarrow> bool" where
  "found_in b tok \<longleftrightarrow>
     tok \<noteq> [] \<and>
     (case rb_data b of
        Some inner \<Rightarrow>
          accessToken inner = Some tok \<or>
          ((accessToken inner = None \<or> accessToken inner = Some []) \<and> token inner = Some tok)
      | None \<Rightarrow>
          rb_accessToken b = Some tok \<or>
          ((rb_accessToken b = None \<or> rb_accessToken b = Some []) \<and> rb_token b = Some tok))"

text \<open>
  The effects of a successful refresh for the request \<open>req\<close> with new access token
  \<open>tok\<close>, where \<open>rt\<close> is the refresh token the handler read before it issued the call.
\<close>

definition success_effects :: "client \<Rightarrow> client \<Rightarrow> config \<Rightarrow> string \<Rightarrow> string \<Rightarrow> bool" where
  "success_effects c c' req rt tok \<longleftrightarrow>
     getItem (store c') TOKEN_KEY = Some tok \<and>
     getItem (store c') REFRESH_KEY = Some rt \<and>
     settled c' = settled c
        @ map (\<lambda>q. (req_id q,
                 Resubmitted (q\<lparr>headers := (headers q)(''Authorization'' \<mapsto> ''Bearer '' @ tok)\<rparr>)))
            (failedQueue c)
        @ [(req_id req,
            Resubmitted (req\<lparr>headers := (headers req)(''Authorization'' \<mapsto> ''Bearer '' @ tok)\<rparr>))] \<and>
     failedQueue c' = [] \<and> \<not> isRefreshing c' \<and> awaiting c' = None \<and>
     logoutEvents c' = logoutEvents c \<and> refreshCalls c' = refreshCalls c"

text \<open>Concrete requests, errors and storages for the examples.\<close>

definition get_request :: "nat \<Rightarrow> string \<Rightarrow> config" where
  "get_request n u =
     \<lparr>req_id = n, url = u, http_method = ''get'', headers = Map.empty, payload = None,
      metadata = None, retry = False\<rparr>"

definition unauthorized :: "config \<Rightarrow> http_error" where
  "unauthorized cfg =
     \<lparr>e_config = cfg, e_code = Some ''ERR_BAD_REQUEST'',
      e_message = ''Request failed with status code 401'',
      e_response = Some \<lparr>status = 401, r_message = None, r_error = None, r_errors = None\<rparr>\<rparr>"

definition logged_in :: storage where
  "logged_in = [TOKEN_KEY \<mapsto> ''old'', REFRESH_KEY \<mapsto> ''r1'']"

definition token_body :: "string \<Rightarrow> refresh_body" where
  "token_body tok = \<lparr>rb_data = None, rb_accessToken = Some tok, rb_token = None\<rparr>"

definition network_down :: reason where
  "network_down =
     Axios \<lparr>e_config = get_request 0 ''/auth/refresh'', e_code = Some ''ERR_NETWORK'',
            e_message = ''Network Error'', e_response = None\<rparr>"

text \<open>
  A state in the middle of a refresh: request 1 started it, requests 2 and 3 are queued.
\<close>

definition mid_refresh :: client where
  "mid_refresh =
     run [ResponseError (unauthorized (get_request 1 ''/attendance'')),
          ResponseError (unauthorized (get_request 2 ''/events'')),
          ResponseError (unauthorized (get_request 3 ''/events/stats''))]
       (initial_client logged_in)"


text \<open>
  A refresh response whose body carries a token at its top level next to an empty
  \<open>data\<close> object: \<open>{data: {}, accessToken: 'x'}\<close>.
\<close>

definition misplaced_token :: refresh_body where
  "misplaced_token =
     \<lparr>rb_data = Some \<lparr>accessToken = None, token = None\<rparr>, rb_accessToken = Some ''x'',
      rb_token = None\<rparr>"

text \<open>
  A refresh during which the application logs out: request 1 starts the refresh, then the
  tokens are cleared.
\<close>

definition logged_out_meanwhile :: client where
  "logged_out_meanwhile =
     run [ResponseError (unauthorized (get_request 1 ''/attendance'')), TokensCleared]
       (initial_client logged_in)"

subsection \<open>Backends, worlds and records for the examples\<close>

text \<open>
  A backend that answers every request with a JSON body, counting the requests; one that
  is never reached; one that rejects every request with a body whose \<open>message\<close> is a
  text; and one that rejects every request with a body whose \<open>message\<close> is the number
  42.
\<close>

definition accepting_backend :: "nat transport" where
  "accepting_backend n rq =
     (Inr (Json \<lparr>b_data = Obj [(''id'', Num (int n))], b_message = Undefined,
                  b_pagination = Obj [(''currentPage'', Num 1), (''totalPages'', Num 3)],
                  b_count = Num 1, b_errors = Undefined\<rparr>), Suc n)"

definition unreachable_backend :: "unit transport" where
  "unreachable_backend u rq = (Inl \<lparr>err_message = ''Network Error'', err_data = None\<rparr>, u)"

definition refusing_backend :: "unit transport" where
  "refusing_backend u rq =
     (Inl \<lparr>err_message = ''Request failed with status code 403'',
           err_data = Some (empty_body\<lparr>b_message := Str ''Forbidden''\<rparr>)\<rparr>, u)"

definition numbering_backend :: "unit transport" where
  "numbering_backend u rq =
     (Inl \<lparr>err_message = ''Request failed with status code 500'',
           err_data = Some (empty_body\<lparr>b_message := Num 42\<rparr>)\<rparr>, u)"

definition fresh_world :: "'b \<Rightarrow> 'b world" where
  "fresh_world b = \<lparr>backend = b, sent = [], downloads = []\<rparr>"

definition attendance_record :: "string \<Rightarrow> int \<Rightarrow> attendance_data" where
  "attendance_record day n =
     \<lparr>ad_date = Some day, ad_serviceType = Some ''Sunday School'',
      ad_totalAttendance = Some (Safe n),
      ad_adults = None, ad_youth = None, ad_children = None, ad_visitors = None,
      ad_notes = None, ad_members = Undefined\<rparr>"

subsection \<open>The envelope invariant\<close>

text \<open>
  An envelope that reports a failure carries a message with the property \<open>P\<close>: a
  truthy value, or a non-empty string.
\<close>

definition carries :: "(jsval \<Rightarrow> bool) \<Rightarrow> envelope \<Rightarrow> bool" where
  "carries P v \<longleftrightarrow> (\<not> success v \<longrightarrow> P (message v))"

fun is_text :: "jsval \<Rightarrow> bool" where
  "is_text (Str s) = (s \<noteq> [])"
| "is_text v = False"

text \<open>
  What makes a rejection of the backend fit for \<open>P\<close>: the message of its body, when it
  has a truthy one, has the property.
\<close>

definition apt :: "(jsval \<Rightarrow> bool) \<Rightarrow> api_error \<Rightarrow> bool" where
  "apt P e \<longleftrightarrow> (js_truthy (resp_message e) \<longrightarrow> P (resp_message e))"

definition fit :: "(jsval \<Rightarrow> bool) \<Rightarrow> 'b transport \<Rightarrow> bool" where
  "fit P net \<longleftrightarrow>
     (\<forall>s. s \<noteq> [] \<longrightarrow> P (Str s)) \<and> (\<forall>b rq e. fst (net b rq) = Inl e \<longrightarrow> apt P e)"

subsection \<open>What a list operation sends\<close>

text \<open>
  The query as the specification words it: a list of named parameters, each with the
  value given for it or none, of which the ones without a value are left out. A string
  counts as given when it is present and not empty, a number when it is present and not
  zero, a flag when it is set; for a category or type filter the value \<open>all\<close> means that
  no filter is given.
\<close>

definition present :: "(string \<times> string option) list \<Rightarrow> (string \<times> string) list" where
  "present kvs = concat (map (\<lambda>(k, v). case v of None \<Rightarrow> [] | Some s \<Rightarrow> [(k, s)]) kvs)"

definition text_value :: "string option \<Rightarrow> string option" where
  "text_value v = (case v of None \<Rightarrow> None | Some s \<Rightarrow> if s = [] then None else Some s)"

definition number_value :: "safe_int option \<Rightarrow> string option" where
  "number_value v =
     (case v of None \<Rightarrow> None
      | Some n \<Rightarrow> if int_of n = 0 then None else Some (show_int (int_of n)))"

definition flag_value :: "bool option \<Rightarrow> string option" where
  "flag_value v = (case v of None \<Rightarrow> None | Some b \<Rightarrow> if b then Some ''true'' else None)"

definition filter_value :: "string option \<Rightarrow> string option" where
  "filter_value v =
     (case v of None \<Rightarrow> None | Some s \<Rightarrow> if s = [] \<or> s = ''all'' then None else Some s)"

text \<open>The envelope of a list operation answered with the JSON body \<open>b\<close>.\<close>

definition listed :: "envelope \<Rightarrow> body \<Rightarrow> bool" where
  "listed v b \<longleftrightarrow> success v \<and> data v = b_data b \<and> pagination v = b_pagination b"

definition page_two :: event_filters where
  "page_two =
     no_event_filters\<lparr>ef_page := Given (Safe 2), ef_limit := Given (Safe 10),
                       ef_status := Given ''all'', ef_category := Given ''Youth Event'',
                       ef_search := Given ''a&b''\<rparr>"

subsection \<open>The two modes of an export\<close>

text \<open>
  The result \<open>r\<close> of an export called in the world \<open>w\<close> is a download under the given
  file name: one request was sent, its response went to the browser under that name, and
  the envelope holds the file name and the type only.
\<close>

definition downloaded ::
  "'b transport \<Rightarrow> 'b world \<Rightarrow> envelope \<times> 'b world \<Rightarrow> string \<Rightarrow> bool" where
  "downloaded net w r filename \<longleftrightarrow>
     (case r of (v, w') \<Rightarrow>
        success v \<and>
        data v = Obj [(''filename'', Str filename), (''type'', Str ''download'')] \<and>
        count v = Undefined \<and>
        length (sent w') = Suc (length (sent w)) \<and>
        (case fst (net (backend w) (last (sent w'))) of
           Inl e \<Rightarrow> False
         | Inr resp \<Rightarrow> downloads w' = downloads w @ [(filename, resp)]))"





subsection \<open>Records and outcomes of a bulk creation\<close>

text \<open>
  The world in which the record at position \<open>i\<close> is created, after the creations of the
  records before it, and the envelope this creation returns.
\<close>

definition world_before ::
  "'b transport \<Rightarrow> attendance_data list \<Rightarrow> 'b world \<Rightarrow> nat \<Rightarrow> 'b world" where
  "world_before net records w i =
     foldl (\<lambda>w' r. snd (createAttendance net r w')) w (take i records)"

definition outcome ::
  "'b transport \<Rightarrow> attendance_data list \<Rightarrow> 'b world \<Rightarrow> nat \<Rightarrow> envelope" where
  "outcome net records w i = fst (createAttendance net (records ! i) (world_before net records w i))"



subsection \<open>White space\<close>

text \<open>The string is made of white space only (the empty string is).\<close>

definition blank_text :: "string \<Rightarrow> bool" where
  "blank_text s \<longleftrightarrow> (\<exists>ws. set ws \<subseteq> set js_spaces \<and> s = concat ws)"

section \<open>Properties of the transport core\<close>

subsection \<open>The request interceptor\<close>

text \<open>
  C2 (as amended). When the value stored under the access-token key is a non-empty
  string, the request interceptor sets the header Authorization to
  \<open>Bearer\<close> followed by exactly that string; when nothing is stored under the key or
  the stored string is empty, the headers are left as they were. In both cases the
  request proceeds with every field other than the headers unchanged, except
  \<open>metadata\<close>, which is set to the start time.
\<close>

theorem request_interceptor_bearer:
  "request_interceptor st now cfg =
     cfg\<lparr>headers := (case getItem st TOKEN_KEY of
                        None \<Rightarrow> headers cfg
                      | Some t \<Rightarrow> if t = [] then headers cfg
                                  else (headers cfg)(''Authorization'' \<mapsto> ''Bearer '' @ t)),
          metadata := Some now\<rparr>"
  by (cases "getItem st TOKEN_KEY") (simp_all add: request_interceptor_def bearer_def)

theorem request_interceptor_bearer_witness:
  "getItem logged_in TOKEN_KEY = Some ''old'' \<and>
   headers (request_interceptor logged_in 1700 (get_request 1 ''/events'')) ''Authorization''
     = Some ''Bearer old'' \<and>
   url (request_interceptor logged_in 1700 (get_request 1 ''/events'')) = ''/events'' \<and>
   headers (request_interceptor Map.empty 1700 (get_request 1 ''/events'')) ''Authorization''
     = None"
  using request_interceptor_bearer [of logged_in 1700 "get_request 1 ''/events''"]
    request_interceptor_bearer [of Map.empty 1700 "get_request 1 ''/events''"]
  by (simp add: logged_in_def getItem_def TOKEN_KEY_def REFRESH_KEY_def get_request_def)

text \<open>
  The claim as stated fails where the stored token is the empty string: a value is
  present under the key, yet no Authorization header is attached. It also fails in that
  a field other than the header changes: \<open>metadata\<close> is absent before and set after.
\<close>

theorem request_interceptor_counterexample:
  "getItem [TOKEN_KEY \<mapsto> []] TOKEN_KEY = Some [] \<and>
   headers (request_interceptor [TOKEN_KEY \<mapsto> []] 1700 (get_request 1 ''/events''))
     ''Authorization'' = None \<and>
   metadata (get_request 1 ''/events'') = None \<and>
   metadata (request_interceptor [TOKEN_KEY \<mapsto> []] 1700 (get_request 1 ''/events''))
     = Some 1700"
  by (simp add: request_interceptor_def getItem_def get_request_def)

subsection \<open>The queue and the two outcomes of a refresh\<close>

lemma settle_all_log:
  "settle_all qs f c = c\<lparr>settled := settled c @ map (\<lambda>q. (req_id q, f q)) qs\<rparr>"
  by (induction qs arbitrary: c) (simp_all add: settle_def)

lemma processQueue_reject:
  "processQueue (Some e) tok c =
     c\<lparr>settled := settled c @ map (\<lambda>q. (req_id q, Rejected e)) (failedQueue c),
       failedQueue := []\<rparr>"
  by (simp add: processQueue_def settle_all_log)

lemma processQueue_resolve:
  "processQueue None tok c =
     c\<lparr>settled := settled c
          @ map (\<lambda>q. (req_id q, Resubmitted (with_authorization tok q))) (failedQueue c),
       failedQueue := []\<rparr>"
  by (simp add: processQueue_def settle_all_log)

lemma refresh_failed_cleanup: "failure_cleanup c (refresh_failed req e c) req e"
  by (simp add: failure_cleanup_def refresh_failed_def processQueue_reject Let_def settle_def
      getItem_def removeItem_def)

lemma on_response_error_queue:
  assumes "e_response err = Some r" "status r = 401" "\<not> retry (e_config err)" "isRefreshing c"
  shows "on_response_error err c = c\<lparr>failedQueue := failedQueue c @ [e_config err]\<rparr>"
  using assms by (simp add: on_response_error_def)

lemma on_response_error_start:
  assumes "e_response err = Some r" "status r = 401" "\<not> retry (e_config err)"
    "\<not> isRefreshing c" "getItem (store c) REFRESH_KEY = Some rt" "rt \<noteq> []"
  shows "on_response_error err c =
           c\<lparr>isRefreshing := True, awaiting := Some ((e_config err)\<lparr>retry := True\<rparr>, rt),
             refreshCalls := refreshCalls c @ [bearer rt]\<rparr>"
  using assms by (simp add: on_response_error_def Let_def)

lemma on_response_error_no_token:
  assumes "e_response err = Some r" "status r = 401" "\<not> retry (e_config err)"
    "\<not> isRefreshing c" "\<not> truthy (getItem (store c) REFRESH_KEY)"
  shows "on_response_error err c =
           refresh_failed ((e_config err)\<lparr>retry := True\<rparr>) (JsError ''No refresh token available'')
             (c\<lparr>isRefreshing := True\<rparr>)"
  using assms by (simp add: on_response_error_def Let_def)

lemma on_response_error_pass:
  assumes "e_response err = Some r" "status r \<noteq> 401 \<or> retry (e_config err)"
  shows "on_response_error err c =
           settle (e_config err) (Rejected (Axios err)) (c\<lparr>toasts := toasts c @ status_toasts r\<rparr>)"
  using assms by (auto simp add: on_response_error_def Let_def)

lemma mid_refresh_state:
  "mid_refresh =
     (initial_client logged_in)
       \<lparr>isRefreshing := True,
        failedQueue := [get_request 2 ''/events'', get_request 3 ''/events/stats''],
        awaiting := Some ((get_request 1 ''/attendance'')\<lparr>retry := True\<rparr>, ''r1''),
        refreshCalls := [''Bearer r1'']\<rparr>"
  by (simp add: mid_refresh_def initial_client_def logged_in_def unauthorized_def get_request_def
      on_response_error_def getItem_def Let_def bearer_def TOKEN_KEY_def REFRESH_KEY_def)

subsection \<open>Failure of the refresh\<close>

text \<open>
  C3. Every failed refresh attempt removes both stored tokens, dispatches the logout
  event exactly once, rejects every request queued during the refresh with the refresh
  failure and rejects the promise of the request that started it with the same failure.
  The attempt fails when the refresh call is rejected (network failure, timeout, non-2xx
  status), when it resolves without a usable token in the payload, and when no refresh
  token is stored, in which case no call is issued at all.
\<close>

theorem refresh_failure_cleanup:
  "(awaiting c = Some (req, rt) \<longrightarrow>
      failure_cleanup c (step (RefreshSettled (RefreshRejected e)) c) req e) \<and>
   (awaiting c = Some (req, rt) \<and> newAccessToken d = None \<longrightarrow>
      failure_cleanup c (step (RefreshSettled (RefreshResolved d)) c) req
        (JsError ''No refresh token available'')) \<and>
   (e_response err = Some r \<and> status r = 401 \<and> \<not> retry (e_config err) \<and>
    \<not> isRefreshing c0 \<and> \<not> truthy (getItem (store c0) REFRESH_KEY) \<longrightarrow>
      failure_cleanup c0 (step (ResponseError err) c0) ((e_config err)\<lparr>retry := True\<rparr>)
        (JsError ''No refresh token available''))"
proof (intro conjI impI)
  assume "awaiting c = Some (req, rt)"
  then show "failure_cleanup c (step (RefreshSettled (RefreshRejected e)) c) req e"
    by (simp add: on_refresh_settled_def refresh_failed_cleanup)
next
  assume "awaiting c = Some (req, rt) \<and> newAccessToken d = None"
  then show "failure_cleanup c (step (RefreshSettled (RefreshResolved d)) c) req
        (JsError ''No refresh token available'')"
    by (simp add: on_refresh_settled_def refresh_resolved_def refresh_failed_cleanup)
next
  let ?req = "(e_config err)\<lparr>retry := True\<rparr>"
  let ?e = "JsError ''No refresh token available''"
  assume a: "e_response err = Some r \<and> status r = 401 \<and> \<not> retry (e_config err) \<and>
    \<not> isRefreshing c0 \<and> \<not> truthy (getItem (store c0) REFRESH_KEY)"
  have "failure_cleanup (c0\<lparr>isRefreshing := True\<rparr>)
          (refresh_failed ?req ?e (c0\<lparr>isRefreshing := True\<rparr>)) ?req ?e"
    by (rule refresh_failed_cleanup)
  then have "failure_cleanup c0 (refresh_failed ?req ?e (c0\<lparr>isRefreshing := True\<rparr>)) ?req ?e"
    by (simp add: failure_cleanup_def)
  with a show "failure_cleanup c0 (step (ResponseError err) c0) ?req ?e"
    by (simp add: on_response_error_no_token)
qed

theorem refresh_failure_cleanup_witness:
  "awaiting mid_refresh = Some ((get_request 1 ''/attendance'')\<lparr>retry := True\<rparr>, ''r1'') \<and>
   newAccessToken None = None \<and>
   \<not> truthy (getItem (store (initial_client Map.empty)) REFRESH_KEY) \<and>
   failure_cleanup mid_refresh (step (RefreshSettled (RefreshRejected network_down)) mid_refresh)
     ((get_request 1 ''/attendance'')\<lparr>retry := True\<rparr>) network_down \<and>
   failure_cleanup mid_refresh (step (RefreshSettled (RefreshResolved None)) mid_refresh)
     ((get_request 1 ''/attendance'')\<lparr>retry := True\<rparr>) (JsError ''No refresh token available'') \<and>
   failure_cleanup (initial_client Map.empty)
     (step (ResponseError (unauthorized (get_request 4 ''/events''))) (initial_client Map.empty))
     ((get_request 4 ''/events'')\<lparr>retry := True\<rparr>) (JsError ''No refresh token available'') \<and>
   map fst (settled (step (RefreshSettled (RefreshRejected network_down)) mid_refresh)) = [2, 3, 1]"
proof -
  have a: "awaiting mid_refresh = Some ((get_request 1 ''/attendance'')\<lparr>retry := True\<rparr>, ''r1'')"
    by (simp add: mid_refresh_state initial_client_def)
  have q: "failedQueue mid_refresh = [get_request 2 ''/events'', get_request 3 ''/events/stats'']"
    "settled mid_refresh = []"
    by (simp_all add: mid_refresh_state initial_client_def)
  have n: "newAccessToken None = None" by (simp add: newAccessToken_def)
  have i: "e_response (unauthorized (get_request 4 ''/events''))
             = Some \<lparr>status = 401, r_message = None, r_error = None, r_errors = None\<rparr>"
    "\<not> retry (e_config (unauthorized (get_request 4 ''/events'')))"
    "e_config (unauthorized (get_request 4 ''/events'')) = get_request 4 ''/events''"
    "\<not> isRefreshing (initial_client Map.empty)"
    "\<not> truthy (getItem (store (initial_client Map.empty)) REFRESH_KEY)"
    by (simp_all add: unauthorized_def get_request_def initial_client_def getItem_def)
  note w = refresh_failure_cleanup [of mid_refresh "(get_request 1 ''/attendance'')\<lparr>retry := True\<rparr>"
      "''r1''" network_down None "unauthorized (get_request 4 ''/events'')"
      "\<lparr>status = 401, r_message = None, r_error = None, r_errors = None\<rparr>"
      "initial_client Map.empty"]
  have s: "map fst (settled (step (RefreshSettled (RefreshRejected network_down)) mid_refresh))
             = [2, 3, 1]"
    using w a q by (simp add: failure_cleanup_def get_request_def)
  from w a n i s show ?thesis by simp
qed

subsection \<open>The flag, the queue and the suspended invocation\<close>

lemma idle_coherent: "idle c \<Longrightarrow> coherent c"
  by (simp add: idle_def coherent_def)

lemma refresh_failed_coherent: "coherent (refresh_failed req e c)"
  using refresh_failed_cleanup [of c req e]
  by (simp add: failure_cleanup_def coherent_def)

lemma refresh_resolved_coherent: "coherent (refresh_resolved req rt d c)"
proof (cases "newAccessToken d")
  case None
  then show ?thesis by (simp add: refresh_resolved_def refresh_failed_coherent)
next
  case (Some tok)
  then show ?thesis
    by (simp add: refresh_resolved_def Let_def settle_def processQueue_resolve coherent_def)
qed

lemma settle_coherent: "coherent (settle q out c) = coherent c"
  by (simp add: coherent_def settle_def split: option.split)

lemma coherent_toasts: "coherent (c\<lparr>toasts := t\<rparr>) = coherent c"
  by (simp add: coherent_def split: option.split)

lemma on_response_error_coherent:
  assumes "coherent c" shows "coherent (on_response_error err c)"
proof (cases "e_response err")
  case None
  with assms show ?thesis
    by (simp add: on_response_error_def Let_def settle_coherent coherent_toasts)
next
  case (Some r)
  show ?thesis
  proof (cases "status r = 401 \<and> \<not> retry (e_config err)")
    case False
    then have "status r \<noteq> 401 \<or> retry (e_config err)" by simp
    from on_response_error_pass [OF Some this] assms show ?thesis
      by (simp add: settle_coherent coherent_toasts)
  next
    case True
    show ?thesis
    proof (cases "isRefreshing c")
      case r: True
      with assms obtain req rt where "awaiting c = Some (req, rt)"
        by (cases "awaiting c") (auto simp: coherent_def)
      with Some True r assms show ?thesis
        by (simp add: on_response_error_queue coherent_def)
    next
      case nr: False
      show ?thesis
      proof (cases "truthy (getItem (store c) REFRESH_KEY)")
        case t: True
        then obtain rt where "getItem (store c) REFRESH_KEY = Some rt" "rt \<noteq> []"
          by (cases "getItem (store c) REFRESH_KEY") auto
        with Some True nr show ?thesis
          by (simp add: on_response_error_start coherent_def)
      next
        case f: False
        with Some True nr show ?thesis
          by (simp add: on_response_error_no_token refresh_failed_coherent)
      qed
    qed
  qed
qed

lemma on_refresh_settled_coherent:
  assumes "coherent c" shows "coherent (on_refresh_settled res c)"
proof (cases "awaiting c")
  case None
  with assms show ?thesis by (simp add: on_refresh_settled_def)
next
  case (Some a)
  then show ?thesis
    by (cases a; cases res)
      (simp_all add: on_refresh_settled_def refresh_failed_coherent refresh_resolved_coherent)
qed

lemma coherent_store: "coherent (c\<lparr>store := st\<rparr>) = coherent c"
  by (simp add: coherent_def split: option.split)

lemma step_coherent: "coherent c \<Longrightarrow> coherent (step ev c)"
  by (cases ev)
    (simp_all add: on_response_error_coherent on_refresh_settled_coherent setTokens_def
      clearTokens_def coherent_store)

lemma run_coherent: "coherent c \<Longrightarrow> coherent (run evs c)"
  by (induction evs arbitrary: c) (simp_all add: step_coherent)

lemma run_append: "run (xs @ ys) c = run ys (run xs c)"
  by (induction xs arbitrary: c) simp_all

subsection \<open>Success of the refresh\<close>

lemma found_in_newAccessToken: "found_in b tok \<longleftrightarrow> newAccessToken (Some b) = Some tok"
proof (cases "rb_data b")
  case None
  then show ?thesis
    by (cases "rb_accessToken b"; cases "rb_token b")
      (auto simp: found_in_def newAccessToken_def or_else_def)
next
  case (Some inner)
  then show ?thesis
    by (cases "accessToken inner"; cases "token inner")
      (auto simp: found_in_def newAccessToken_def or_else_def)
qed

lemma refresh_resolved_success:
  assumes "newAccessToken d = Some tok"
  shows "success_effects c (refresh_resolved req rt d c) req rt tok"
  using assms
  by (simp add: success_effects_def refresh_resolved_def Let_def processQueue_resolve settle_def
      getItem_def setItem_def TOKEN_KEY_def REFRESH_KEY_def with_authorization_def bearer_def)

text \<open>
  C4 (as amended). When the refresh call resolves and the body carries a non-empty new
  access token where the handler reads it (\<open>data.data.accessToken\<close> or
  \<open>data.data.token\<close> when \<open>data.data\<close> is there, otherwise \<open>data.accessToken\<close> or
  \<open>data.token\<close>), the new access token is stored, the refresh token that the handler
  read before it issued the call is written back under its key, every queued request is
  resubmitted with Authorization set to the new token, and so is the request that started
  the refresh, whose promise follows the resubmitted call. The stored refresh token is
  therefore what it was, unless other code has changed it while the call was in flight.
\<close>

theorem refresh_success_path:
  assumes "awaiting c = Some (req, rt)" and "found_in b tok"
  shows "success_effects c (step (RefreshSettled (RefreshResolved (Some b))) c) req rt tok \<and>
         (getItem (store c) REFRESH_KEY = Some rt \<longrightarrow>
            getItem (store (step (RefreshSettled (RefreshResolved (Some b))) c)) REFRESH_KEY
              = getItem (store c) REFRESH_KEY)"
proof -
  from assms(2) have n: "newAccessToken (Some b) = Some tok"
    by (simp add: found_in_newAccessToken)
  have e: "success_effects c (step (RefreshSettled (RefreshResolved (Some b))) c) req rt tok"
    using assms(1) refresh_resolved_success [OF n, of c req rt]
    by (simp add: on_refresh_settled_def)
  then show ?thesis by (simp add: success_effects_def)
qed

theorem refresh_success_path_witness:
  "awaiting mid_refresh = Some ((get_request 1 ''/attendance'')\<lparr>retry := True\<rparr>, ''r1'') \<and>
   found_in (token_body ''new'') ''new'' \<and>
   getItem (store mid_refresh) REFRESH_KEY = Some ''r1'' \<and>
   getItem (store (step (RefreshSettled (RefreshResolved (Some (token_body ''new'')))) mid_refresh))
     TOKEN_KEY = Some ''new'' \<and>
   getItem (store (step (RefreshSettled (RefreshResolved (Some (token_body ''new'')))) mid_refresh))
     REFRESH_KEY = Some ''r1'' \<and>
   map fst (settled (step (RefreshSettled (RefreshResolved (Some (token_body ''new''))))
     mid_refresh)) = [2, 3, 1] \<and>
   failedQueue (step (RefreshSettled (RefreshResolved (Some (token_body ''new'')))) mid_refresh)
     = [] \<and>
   \<not> isRefreshing (step (RefreshSettled (RefreshResolved (Some (token_body ''new''))))
     mid_refresh)"
proof -
  have a: "awaiting mid_refresh = Some ((get_request 1 ''/attendance'')\<lparr>retry := True\<rparr>, ''r1'')"
    by (simp add: mid_refresh_state initial_client_def)
  have f: "found_in (token_body ''new'') ''new''"
    by (simp add: found_in_def token_body_def)
  have r: "getItem (store mid_refresh) REFRESH_KEY = Some ''r1''"
    by (simp add: mid_refresh_state initial_client_def logged_in_def getItem_def)
  have q: "failedQueue mid_refresh = [get_request 2 ''/events'', get_request 3 ''/events/stats'']"
    "settled mid_refresh = []"
    by (simp_all add: mid_refresh_state initial_client_def)
  note w = refresh_success_path [OF a f]
  from w a f r q show ?thesis
    by (simp add: success_effects_def get_request_def)
qed

text \<open>
  The claim as stated fails in two ways. A response that carries a token at the top
  level of its body next to an empty \<open>data\<close> object is read at \<open>data.data\<close> only: no
  token is stored, the client logs out and the waiting requests are rejected. And the
  refresh token written back is the one read before the call: when the application has
  cleared the tokens in the meantime, the stored refresh token is not kept as it was but
  brought back.
\<close>

theorem refresh_success_counterexample:
  "rb_accessToken misplaced_token = Some ''x'' \<and>
   getItem (store (step (RefreshSettled (RefreshResolved (Some misplaced_token))) mid_refresh))
     TOKEN_KEY = None \<and>
   logoutEvents (step (RefreshSettled (RefreshResolved (Some misplaced_token))) mid_refresh) = 1 \<and>
   map fst (settled (step (RefreshSettled (RefreshResolved (Some misplaced_token))) mid_refresh))
     = [2, 3, 1] \<and>
   getItem (store logged_out_meanwhile) REFRESH_KEY = None \<and>
   getItem (store (step (RefreshSettled (RefreshResolved (Some (token_body ''new''))))
     logged_out_meanwhile)) REFRESH_KEY = Some ''r1''"
proof -
  have m: "newAccessToken (Some misplaced_token) = None"
    by (simp add: newAccessToken_def misplaced_token_def or_else_def)
  have a: "awaiting mid_refresh = Some ((get_request 1 ''/attendance'')\<lparr>retry := True\<rparr>, ''r1'')"
    by (simp add: mid_refresh_state initial_client_def)
  have q: "failedQueue mid_refresh = [get_request 2 ''/events'', get_request 3 ''/events/stats'']"
    "settled mid_refresh = []" "logoutEvents mid_refresh = 0"
    by (simp_all add: mid_refresh_state initial_client_def)
  have c: "failure_cleanup mid_refresh
             (step (RefreshSettled (RefreshResolved (Some misplaced_token))) mid_refresh)
             ((get_request 1 ''/attendance'')\<lparr>retry := True\<rparr>) (JsError ''No refresh token available'')"
    using a m refresh_failed_cleanup [of mid_refresh]
    by (simp add: on_refresh_settled_def refresh_resolved_def)
  have l: "logged_out_meanwhile =
             (initial_client Map.empty)
               \<lparr>isRefreshing := True,
                awaiting := Some ((get_request 1 ''/attendance'')\<lparr>retry := True\<rparr>, ''r1''),
                refreshCalls := [''Bearer r1'']\<rparr>"
    by (simp add: logged_out_meanwhile_def initial_client_def logged_in_def unauthorized_def
        get_request_def on_response_error_def clearTokens_def getItem_def removeItem_def Let_def
        bearer_def TOKEN_KEY_def REFRESH_KEY_def)
  have n: "newAccessToken (Some (token_body ''new'')) = Some ''new''"
    by (simp add: newAccessToken_def token_body_def or_else_def)
  have s: "success_effects logged_out_meanwhile
             (step (RefreshSettled (RefreshResolved (Some (token_body ''new'')))) logged_out_meanwhile)
             ((get_request 1 ''/attendance'')\<lparr>retry := True\<rparr>) ''r1'' ''new''"
  proof -
    have "awaiting logged_out_meanwhile
            = Some ((get_request 1 ''/attendance'')\<lparr>retry := True\<rparr>, ''r1'')"
      by (simp add: l initial_client_def)
    then show ?thesis
      using refresh_resolved_success [OF n, of logged_out_meanwhile
          "(get_request 1 ''/attendance'')\<lparr>retry := True\<rparr>" "''r1''"]
      by (simp add: on_refresh_settled_def)
  qed
  have e: "getItem (store logged_out_meanwhile) REFRESH_KEY = None"
    by (simp add: l initial_client_def getItem_def)
  from c s e q show ?thesis
    by (simp add: failure_cleanup_def success_effects_def misplaced_token_def get_request_def)
qed

subsection \<open>Several 401 responses and one refresh\<close>

lemma run_queue:
  assumes "isRefreshing c" "\<forall>e \<in> set es. fresh_401 e"
  shows "run (map ResponseError es) c = c\<lparr>failedQueue := failedQueue c @ map e_config es\<rparr>"
  using assms
proof (induction es arbitrary: c)
  case Nil
  then show ?case by simp
next
  case (Cons e es)
  let ?c = "c\<lparr>failedQueue := failedQueue c @ [e_config e]\<rparr>"
  from Cons.prems obtain r where r: "e_response e = Some r" "status r = 401" "\<not> retry (e_config e)"
    by (cases "e_response e") (auto simp: fresh_401_def)
  have "step (ResponseError e) c = ?c"
    using on_response_error_queue [OF r] Cons.prems(1) by simp
  moreover have "isRefreshing ?c"
    using Cons.prems(1) by simp
  ultimately show ?case using Cons.IH [of ?c] Cons.prems(2)
    by simp
qed

lemma on_refresh_settled_outcome:
  assumes "awaiting c = Some (req, rt)"
  shows "settled (on_refresh_settled res c) =
           settled c @ map (\<lambda>q. (req_id q, refresh_outcome res q)) (failedQueue c @ [req]) \<and>
         failedQueue (on_refresh_settled res c) = [] \<and>
         \<not> isRefreshing (on_refresh_settled res c) \<and>
         awaiting (on_refresh_settled res c) = None \<and>
         refreshCalls (on_refresh_settled res c) = refreshCalls c"
proof (cases res)
  case (RefreshRejected e)
  with assms refresh_failed_cleanup [of c req e] show ?thesis
    by (simp add: on_refresh_settled_def failure_cleanup_def refresh_outcome_def)
next
  case (RefreshResolved d)
  show ?thesis
  proof (cases "newAccessToken d")
    case None
    with assms RefreshResolved
      refresh_failed_cleanup [of c req "JsError ''No refresh token available''"]
    show ?thesis
      by (simp add: on_refresh_settled_def refresh_resolved_def failure_cleanup_def
          refresh_outcome_def)
  next
    case (Some tok)
    with assms RefreshResolved show ?thesis
      by (simp add: on_refresh_settled_def refresh_resolved_def refresh_outcome_def Let_def
          processQueue_resolve settle_def with_authorization_def bearer_def)
  qed
qed

text \<open>
  C1 (as amended). Let a non-empty refresh token be stored and no refresh be in flight.
  When one or more requests not yet retried receive a 401 response, and all these
  responses are handled before the refresh call settles, exactly one refresh call is
  issued, carrying the stored refresh token. When that call settles, every one of the
  requests is settled according to its outcome (all resubmitted with the new token, or
  all rejected with the refresh failure), the queue is empty and the flag is cleared, so
  that none of them stays pending.
\<close>

theorem single_flight_refresh:
  assumes "idle c"
    and "getItem (store c) REFRESH_KEY = Some rt" and "rt \<noteq> []"
    and "\<forall>e \<in> set (e0 # es). fresh_401 e"
    and "c' = run (map ResponseError (e0 # es) @ [RefreshSettled res]) c"
  shows "refreshCalls c' = refreshCalls c @ [''Bearer '' @ rt] \<and>
         settled c' = settled c @
            map (\<lambda>q. (req_id q, refresh_outcome res q))
              (map e_config es @ [(e_config e0)\<lparr>retry := True\<rparr>]) \<and>
         failedQueue c' = [] \<and> \<not> isRefreshing c' \<and> awaiting c' = None"
proof -
  let ?req = "(e_config e0)\<lparr>retry := True\<rparr>"
  let ?c1 = "c\<lparr>isRefreshing := True, awaiting := Some (?req, rt),
               refreshCalls := refreshCalls c @ [bearer rt]\<rparr>"
  let ?c2 = "?c1\<lparr>failedQueue := failedQueue ?c1 @ map e_config es\<rparr>"
  from assms(4) obtain r where r: "e_response e0 = Some r" "status r = 401" "\<not> retry (e_config e0)"
    by (cases "e_response e0") (auto simp: fresh_401_def)
  have s1: "step (ResponseError e0) c = ?c1"
    using on_response_error_start [OF r _ assms(2,3)] assms(1) by (simp add: idle_def)
  have s2: "run (map ResponseError es) ?c1 = ?c2"
    using assms(4) by (intro run_queue) simp_all
  have c': "c' = on_refresh_settled res ?c2"
    using assms(5) s1 s2 by (simp add: run_append)
  have aw: "awaiting ?c2 = Some (?req, rt)" by simp
  have q: "failedQueue ?c2 = map e_config es" using assms(1) by (simp add: idle_def)
  from on_refresh_settled_outcome [OF aw, of res] q c' show ?thesis
    by (simp add: bearer_def)
qed

theorem single_flight_refresh_witness:
  "idle (initial_client logged_in) \<and>
   getItem (store (initial_client logged_in)) REFRESH_KEY = Some ''r1'' \<and>
   fresh_401 (unauthorized (get_request 1 ''/attendance'')) \<and>
   fresh_401 (unauthorized (get_request 2 ''/events'')) \<and>
   fresh_401 (unauthorized (get_request 3 ''/events/stats'')) \<and>
   refreshCalls (run (map ResponseError [unauthorized (get_request 1 ''/attendance''),
                        unauthorized (get_request 2 ''/events''),
                        unauthorized (get_request 3 ''/events/stats'')]
                      @ [RefreshSettled (RefreshRejected network_down)])
                   (initial_client logged_in)) = [''Bearer r1''] \<and>
   settled (run (map ResponseError [unauthorized (get_request 1 ''/attendance''),
                        unauthorized (get_request 2 ''/events''),
                        unauthorized (get_request 3 ''/events/stats'')]
                      @ [RefreshSettled (RefreshRejected network_down)])
                   (initial_client logged_in))
     = [(2, Rejected network_down), (3, Rejected network_down), (1, Rejected network_down)]"
proof -
  have i: "idle (initial_client logged_in)"
    by (simp add: idle_def initial_client_def)
  have t: "getItem (store (initial_client logged_in)) REFRESH_KEY = Some ''r1''"
    by (simp add: initial_client_def logged_in_def getItem_def)
  have n: "''r1'' \<noteq> []" by simp
  have f: "\<forall>e \<in> set (unauthorized (get_request 1 ''/attendance'') #
                [unauthorized (get_request 2 ''/events''),
                 unauthorized (get_request 3 ''/events/stats'')]). fresh_401 e"
    by (simp add: fresh_401_def unauthorized_def get_request_def)
  note w = single_flight_refresh [OF i t n f refl, of "RefreshRejected network_down"]
  from w i t f show ?thesis
    by (simp add: refresh_outcome_def initial_client_def unauthorized_def get_request_def)
qed

text \<open>
  The claim as stated fails where no refresh token is stored: two requests not yet
  retried receive a 401 response while no refresh is in flight, and no refresh call is
  issued at all; each response runs the failure path on its own, so that the logout
  event is dispatched twice.
\<close>

theorem single_flight_counterexample:
  "idle (initial_client Map.empty) \<and>
   fresh_401 (unauthorized (get_request 1 ''/attendance'')) \<and>
   fresh_401 (unauthorized (get_request 2 ''/events'')) \<and>
   refreshCalls (run [ResponseError (unauthorized (get_request 1 ''/attendance'')),
                      ResponseError (unauthorized (get_request 2 ''/events''))]
                   (initial_client Map.empty)) = [] \<and>
   logoutEvents (run [ResponseError (unauthorized (get_request 1 ''/attendance'')),
                      ResponseError (unauthorized (get_request 2 ''/events''))]
                   (initial_client Map.empty)) = 2"
  by (simp add: idle_def initial_client_def fresh_401_def unauthorized_def get_request_def
      on_response_error_def getItem_def refresh_failed_def processQueue_def settle_def Let_def
      removeItem_def)

text \<open>
  Nor is one call enough when a 401 response arrives after the refresh has settled: the
  flag is cleared by then, and the late response starts a second refresh.
\<close>

lemma late_401_second_refresh:
  "refreshCalls (run [ResponseError (unauthorized (get_request 1 ''/attendance'')),
                      RefreshSettled (RefreshResolved (Some (token_body ''new''))),
                      ResponseError (unauthorized (get_request 2 ''/events''))]
                   (initial_client logged_in)) = [''Bearer r1'', ''Bearer r1'']"
  by (simp add: initial_client_def logged_in_def unauthorized_def get_request_def
      on_response_error_def on_refresh_settled_def refresh_resolved_def newAccessToken_def
      token_body_def or_else_def processQueue_def settle_def with_authorization_def
      getItem_def setItem_def Let_def bearer_def TOKEN_KEY_def REFRESH_KEY_def)

section \<open>Properties of the resource gateways\<close>

subsection \<open>Local validation\<close>

lemma int_of_Safe:
  "- 9007199254740991 \<le> n \<Longrightarrow> n \<le> 9007199254740991 \<Longrightarrow> int_of (Safe n) = n"
  by (simp add: Safe_inverse)

lemma try_catch_Inl [simp]: "try_catch (Inl e, w) h = (h e, w)"
  by (simp add: try_catch_def)

lemma try_catch_Inr [simp]: "try_catch (Inr v, w) h = (v, w)"
  by (simp add: try_catch_def)

lemma attendance_invalid_cases:
  "attendance_invalid a = None \<or> attendance_invalid a = Some ''Date is required'' \<or>
   attendance_invalid a = Some ''Service type is required'' \<or>
   attendance_invalid a = Some ''Total attendance must be a non-negative number''"
  by (simp add: attendance_invalid_def)

lemma createAttendance_invalid:
  assumes "attendance_invalid a = Some m"
  shows "createAttendance net a w = (fail_env (Str m), w)"
proof -
  from assms attendance_invalid_cases [of a] have "m \<noteq> []" by auto
  with assms show ?thesis
    by (simp add: createAttendance_def js_error_def resp_message_def resp_errors_def
        js_or_def msg_or_def fail_env_def)
qed

text \<open>
  C7. When the date is absent, the service type is absent, or the total attendance is
  undefined or negative, \<open>createAttendance\<close> returns \<open>success: false\<close> with the message
  of the first check that fails (the non-negative-number message when date and service
  type are there), and the world is left as it was: no request has been sent to the
  backend.
\<close>

theorem createAttendance_local_validation:
  assumes "\<not> truthy (ad_date a) \<or> \<not> truthy (ad_serviceType a) \<or>
           ad_totalAttendance a = None \<or> (\<exists>n. ad_totalAttendance a = Some n \<and> int_of n < 0)"
  shows "\<not> success (fst (createAttendance net a w)) \<and>
         message (fst (createAttendance net a w)) \<in>
           {Str ''Date is required'', Str ''Service type is required'',
            Str ''Total attendance must be a non-negative number''} \<and>
         (truthy (ad_date a) \<and> truthy (ad_serviceType a) \<longrightarrow>
            message (fst (createAttendance net a w))
              = Str ''Total attendance must be a non-negative number'') \<and>
         snd (createAttendance net a w) = w"
proof -
  from assms have "attendance_invalid a \<noteq> None"
    by (auto simp: attendance_invalid_def)
  then obtain m where m: "attendance_invalid a = Some m"
    by (cases "attendance_invalid a") auto
  have "truthy (ad_date a) \<and> truthy (ad_serviceType a) \<longrightarrow>
          m = ''Total attendance must be a non-negative number''"
    using m by (auto simp: attendance_invalid_def split: if_splits)
  moreover have "m \<in> {''Date is required'', ''Service type is required'',
            ''Total attendance must be a non-negative number''}"
    using m attendance_invalid_cases [of a] by auto
  ultimately show ?thesis
    using createAttendance_invalid [OF m, of net w] by (simp add: fail_env_def)
qed

theorem createAttendance_local_validation_witness:
  "ad_totalAttendance (attendance_record ''2024-01-14'' (- 1)) = Some (Safe (- 1)) \<and>
   int_of (Safe (- 1)) < 0 \<and>
   truthy (ad_date (attendance_record ''2024-01-14'' (- 1))) \<and>
   truthy (ad_serviceType (attendance_record ''2024-01-14'' (- 1))) \<and>
   \<not> success (fst (createAttendance accepting_backend (attendance_record ''2024-01-14'' (- 1))
                    (fresh_world 0))) \<and>
   message (fst (createAttendance accepting_backend (attendance_record ''2024-01-14'' (- 1))
                    (fresh_world 0))) = Str ''Total attendance must be a non-negative number'' \<and>
   sent (snd (createAttendance accepting_backend (attendance_record ''2024-01-14'' (- 1))
                    (fresh_world 0))) = []"
proof -
  have n: "int_of (Safe (- 1)) < 0" by (simp add: int_of_Safe)
  have t: "truthy (ad_date (attendance_record ''2024-01-14'' (- 1)))"
    "truthy (ad_serviceType (attendance_record ''2024-01-14'' (- 1)))"
    "ad_totalAttendance (attendance_record ''2024-01-14'' (- 1)) = Some (Safe (- 1))"
    by (simp_all add: attendance_record_def)
  from n t have h: "\<not> truthy (ad_date (attendance_record ''2024-01-14'' (- 1))) \<or>
           \<not> truthy (ad_serviceType (attendance_record ''2024-01-14'' (- 1))) \<or>
           ad_totalAttendance (attendance_record ''2024-01-14'' (- 1)) = None \<or>
           (\<exists>n. ad_totalAttendance (attendance_record ''2024-01-14'' (- 1)) = Some n \<and> int_of n < 0)"
    by simp
  note w = createAttendance_local_validation [OF h, of accepting_backend "fresh_world 0"]
  from w t n show ?thesis by (simp add: fresh_world_def)
qed

subsection \<open>Bulk creation\<close>
















lemma accepting_backend_answers:
  "\<forall>b rq. \<exists>resp. fst (accepting_backend b rq) = Inr resp"
  by (simp add: accepting_backend_def)



subsection \<open>Search without a term\<close>

declare strip_leading.simps [simp del]

lemma leading_empty: "leading pats [] = None"
  by (auto simp: leading_def find_None_iff)

lemma strip_leading_empty: "strip_leading pats [] = []"
  by (simp add: strip_leading.simps leading_empty)

lemma leading_space:
  assumes "sp \<in> set js_spaces"
  shows "leading js_spaces (sp @ rest) = Some sp"
proof -
  from assms have "sp \<in> set js_spaces \<and> leading js_spaces (sp @ rest) = Some sp"
    unfolding js_spaces_def
    apply (simp only: list.set insert_iff empty_iff)
    apply (elim disjE)
    apply (simp_all add: leading_def)
    done
  then show ?thesis by simp
qed

lemma strip_leading_spaces:
  assumes "set ws \<subseteq> set js_spaces"
  shows "strip_leading js_spaces (concat ws) = []"
  using assms
proof (induction ws)
  case Nil
  then show ?case by (simp add: strip_leading_empty)
next
  case (Cons sp ws)
  then have "leading js_spaces (sp @ concat ws) = Some sp"
    by (simp add: leading_space)
  with Cons show ?case
    by (simp add: strip_leading.simps [of js_spaces "sp @ concat ws"])
qed

lemma trim_blank: "blank_text s \<Longrightarrow> trim s = []"
  by (auto simp: blank_text_def trim_def strip_leading_spaces strip_leading_empty)

lemma nbsp_blank: "blank_text [CHR 0xC2, CHR 0xA0, CHR '' '']"
  unfolding blank_text_def
  by (rule exI [of _ "[[CHR 0xC2, CHR 0xA0], [CHR 0x20]]"]) (simp add: js_spaces_def)

text \<open>
  C10. With a search term that is absent, empty or made of white space only (the white
  space and line terminators of ECMAScript, which \<open>trim\<close> strips), \<open>searchEvents\<close>
  returns what \<open>getEvents\<close> returns for the same filters, and \<open>searchAttendance\<close> what
  \<open>getAttendanceRecords\<close> returns: the same envelope and the same requests sent.
\<close>

theorem empty_search_delegates:
  assumes "searchTerm = None \<or> (\<exists>s. searchTerm = Some s \<and> blank_text s)"
  shows "searchEvents net searchTerm efilters w = getEvents net efilters w \<and>
         searchAttendance net' searchTerm afilters w' = getAttendanceRecords net' afilters w'"
proof -
  from assms have b: "\<not> truthy searchTerm \<or> length (trim (the searchTerm)) = 0"
    by (auto simp: trim_blank)
  have r: "\<And>x h. try_catch (returned x) h = x"
    by (simp add: try_catch_def returned_def split: prod.split)
  from b show ?thesis
    by (simp add: searchEvents_def searchAttendance_def r)
qed

theorem empty_search_delegates_witness:
  "blank_text [CHR 0xC2, CHR 0xA0, CHR '' ''] \<and>
   searchEvents accepting_backend (Some [CHR 0xC2, CHR 0xA0, CHR '' '']) page_two (fresh_world 0)
     = getEvents accepting_backend page_two (fresh_world 0) \<and>
   searchAttendance accepting_backend None no_attendance_filters (fresh_world 0)
     = getAttendanceRecords accepting_backend no_attendance_filters (fresh_world 0)"
proof -
  have h1: "Some [CHR 0xC2, CHR 0xA0, CHR '' ''] = None \<or>
            (\<exists>s. Some [CHR 0xC2, CHR 0xA0, CHR '' ''] = Some s \<and> blank_text s)"
    using nbsp_blank by simp
  have h2: "(None :: string option) = None \<or>
            (\<exists>s. (None :: string option) = Some s \<and> blank_text s)"
    by simp
  from nbsp_blank
    empty_search_delegates [OF h1, of accepting_backend page_two "fresh_world 0"
      accepting_backend no_attendance_filters "fresh_world 0"]
    empty_search_delegates [OF h2, of accepting_backend page_two "fresh_world 0"
      accepting_backend no_attendance_filters "fresh_world 0"]
  show ?thesis by simp
qed

subsection \<open>The result envelope\<close>

lemma carries_ok [simp]: "carries P (ok_env d m)"
  by (simp add: carries_def ok_env_def)

lemma carries_fail [simp]: "carries P (fail_env m) = P m"
  by (simp add: carries_def fail_env_def)

lemma carries_update [simp]:
  "carries P (v\<lparr>data := d\<rparr>) = carries P v"
  "carries P (v\<lparr>pagination := p\<rparr>) = carries P v"
  "carries P (v\<lparr>errors := es\<rparr>) = carries P v"
  "carries P (v\<lparr>error := e\<rparr>) = carries P v"
  "carries P (v\<lparr>count := c\<rparr>) = carries P v"
  by (simp_all add: carries_def)

lemma apt_js_error [simp]: "apt P (js_error m)"
  by (simp add: apt_def js_error_def resp_message_def)

lemma fit_truthy: "fit js_truthy net"
  by (simp add: fit_def apt_def)

lemma fit_text:
  "fit is_text net \<longleftrightarrow>
     (\<forall>b rq e. fst (net b rq) = Inl e \<longrightarrow> js_truthy (resp_message e) \<longrightarrow> is_text (resp_message e))"
  by (simp add: fit_def apt_def)

lemma message_of_response:
  assumes "fit P net" and "apt P e" and "d \<noteq> []"
  shows "P (msg_or (resp_message e) d)"
  using assms by (simp add: fit_def apt_def msg_or_def js_or_def)

lemma message_of_response_or_error:
  assumes "fit P net" and "apt P e" and "d \<noteq> []"
  shows "P (msg_or (js_or (resp_message e) (Str (err_message e))) d)"
  using assms by (simp add: fit_def apt_def msg_or_def js_or_def)

lemma message_of_error:
  assumes "fit P net" and "d \<noteq> []"
  shows "P (msg_or (Str (err_message e)) d)"
  using assms by (simp add: fit_def msg_or_def js_or_def)

lemma message_fixed:
  assumes "fit P net" and "d \<noteq> []"
  shows "P (Str d)"
  using assms by (simp add: fit_def)

lemma call_api_Inl:
  assumes "fit P net" and "call_api net rq w = (Inl e, w')"
  shows "apt P e"
proof -
  from assms(2) have "fst (net (backend w) rq) = Inl e"
    by (simp add: call_api_def split: prod.splits)
  with assms(1) show ?thesis by (simp add: fit_def)
qed

lemma on_response_Inl:
  assumes "fit P net" and "on_response (call_api net rq w) f = (Inl e, w')"
  shows "apt P e"
proof (cases "call_api net rq w")
  case (Pair x w'')
  with assms(2) have "call_api net rq w = (Inl e, w')"
    by (cases x) (simp_all add: on_response_def)
  with assms(1) show ?thesis by (rule call_api_Inl)
qed

lemma on_response_Inr:
  assumes "on_response r f = (Inr v, w)" shows "\<exists>resp. v = f resp"
proof (cases r)
  case (Pair x w')
  with assms show ?thesis by (cases x) (auto simp: on_response_def)
qed

lemma on_response_carries:
  assumes "\<And>resp. carries P (f resp)" and "on_response r f = (Inr v, w)"
  shows "carries P v"
  using on_response_Inr [OF assms(2)] assms(1) by auto

lemma returned_Inr: "returned x = (Inr v, w) \<Longrightarrow> v = fst x"
  by (cases x) (simp add: returned_def)

lemma returned_Inl [simp]: "returned x \<noteq> (Inl e, w)"
  by (cases x) (simp add: returned_def)

lemma try_catch_carries:
  assumes "\<And>e w. r = (Inl e, w) \<Longrightarrow> carries P (h e)"
    and "\<And>v w. r = (Inr v, w) \<Longrightarrow> carries P v"
  shows "carries P (fst (try_catch r h))"
proof (cases r)
  case (Pair x w)
  with assms show ?thesis by (cases x) (simp_all add: try_catch_def)
qed

lemma getAttendanceRecords_carries:
  assumes "fit P net" shows "carries P (fst (getAttendanceRecords net f w))"
  unfolding getAttendanceRecords_def
  by (rule try_catch_carries)
    (auto intro!: message_of_response [OF assms] dest: on_response_Inl [OF assms]
      elim!: on_response_carries [rotated])

lemma getAttendanceById_carries:
  assumes "fit P net" shows "carries P (fst (getAttendanceById net i w))"
  unfolding getAttendanceById_def
  by (rule try_catch_carries)
    (auto intro!: message_of_response [OF assms] dest: on_response_Inl [OF assms]
      elim!: on_response_carries [rotated] split: if_splits)

lemma createAttendance_carries:
  assumes "fit P net" shows "carries P (fst (createAttendance net a w))"
  unfolding createAttendance_def
  by (rule try_catch_carries)
    (auto intro!: message_of_response_or_error [OF assms] dest: on_response_Inl [OF assms]
      elim!: on_response_carries [rotated] split: if_splits option.splits)

lemma updateAttendance_carries:
  assumes "fit P net" shows "carries P (fst (updateAttendance net i a w))"
  unfolding updateAttendance_def
  by (rule try_catch_carries)
    (auto intro!: message_of_response_or_error [OF assms] dest: on_response_Inl [OF assms] call_api_Inl [OF assms]
      elim!: on_response_carries [rotated] split: if_splits option.splits)

lemma deleteAttendance_carries:
  assumes "fit P net" shows "carries P (fst (deleteAttendance net i w))"
  unfolding deleteAttendance_def
  by (rule try_catch_carries)
    (auto intro!: message_of_response [OF assms] dest: on_response_Inl [OF assms] call_api_Inl [OF assms]
      elim!: on_response_carries [rotated] split: if_splits)

lemma getAttendanceStats_carries:
  assumes "fit P net" shows "carries P (fst (getAttendanceStats net p w))"
  unfolding getAttendanceStats_def Let_def
  by (rule try_catch_carries)
    (auto intro!: message_of_response_or_error [OF assms] dest: on_response_Inl [OF assms] call_api_Inl [OF assms]
      elim!: on_response_carries [rotated] split: if_splits)

lemma getServiceTypes_carries:
  assumes "fit P net" shows "carries P (fst (getServiceTypes net w))"
  unfolding getServiceTypes_def
  by (rule try_catch_carries)
    (auto intro!: message_of_response [OF assms] dest: on_response_Inl [OF assms] call_api_Inl [OF assms]
      elim!: on_response_carries [rotated])

lemma getMembersForAttendance_carries:
  assumes "fit P net" shows "carries P (fst (getMembersForAttendance net w))"
  unfolding getMembersForAttendance_def
  by (rule try_catch_carries)
    (auto intro!: message_of_response [OF assms] dest: on_response_Inl [OF assms] call_api_Inl [OF assms]
      elim!: on_response_carries [rotated])

lemma generateReport_carries:
  assumes "fit P net" shows "carries P (fst (generateReport net today f w))"
  unfolding generateReport_def Let_def
  by (rule try_catch_carries)
    (auto intro!: message_of_response [OF assms] dest: on_response_Inl [OF assms] call_api_Inl [OF assms]
      elim!: on_response_carries [rotated] split: if_splits prod.splits sum.splits)

lemma bulk_report_carries:
  assumes "fit P net" shows "carries P (bulk_report n rs)"
  using assms by (simp add: carries_def bulk_report_def Let_def fit_def)

lemma bulkCreateAttendance_carries:
  assumes "fit P net" shows "carries P (fst (bulkCreateAttendance net rs w))"
  unfolding bulkCreateAttendance_def
  by (rule try_catch_carries)
    (auto simp: bulk_report_carries [OF assms] intro!: message_of_error [OF assms]
      split: if_splits prod.splits)

lemma searchAttendance_carries:
  assumes "fit P net" shows "carries P (fst (searchAttendance net t f w))"
  unfolding searchAttendance_def
  by (rule try_catch_carries)
    (auto simp: getAttendanceRecords_carries [OF assms] intro!: message_of_error [OF assms]
      dest!: returned_Inr split: if_splits)

lemma getAttendanceSummary_carries:
  assumes "fit P net" shows "carries P (fst (getAttendanceSummary net p w))"
  unfolding getAttendanceSummary_def Let_def
proof (rule try_catch_carries, goal_cases)
  case (1 e w')
  show ?case by (simp add: message_of_error [OF assms])
next
  case (2 v w')
  let ?p = "case p of None \<Rightarrow> ''month'' | Some p \<Rightarrow> p"
  from getAttendanceStats_carries [OF assms, of "Some ?p" w] 2 show ?case
    by (auto split: prod.splits if_splits)
qed

lemma getEvents_carries:
  assumes "fit P net" shows "carries P (fst (getEvents net f w))"
  unfolding getEvents_def
  by (rule try_catch_carries)
    (auto intro!: message_of_response [OF assms] dest: on_response_Inl [OF assms] call_api_Inl [OF assms]
      elim!: on_response_carries [rotated])

lemma getEventById_carries:
  assumes "fit P net" shows "carries P (fst (getEventById net i w))"
  unfolding getEventById_def
  by (rule try_catch_carries)
    (auto intro!: message_of_response [OF assms] dest: on_response_Inl [OF assms] call_api_Inl [OF assms]
      elim!: on_response_carries [rotated] split: if_splits)

lemma createEvent_carries:
  assumes "fit P net" shows "carries P (fst (createEvent net a w))"
  unfolding createEvent_def
  by (rule try_catch_carries)
    (auto intro!: message_of_response_or_error [OF assms] dest: on_response_Inl [OF assms] call_api_Inl [OF assms]
      elim!: on_response_carries [rotated] split: if_splits option.splits)

lemma updateEvent_carries:
  assumes "fit P net" shows "carries P (fst (updateEvent net i a w))"
  unfolding updateEvent_def
  by (rule try_catch_carries)
    (auto intro!: message_of_response_or_error [OF assms] dest: on_response_Inl [OF assms] call_api_Inl [OF assms]
      elim!: on_response_carries [rotated] split: if_splits option.splits)

lemma deleteEvent_carries:
  assumes "fit P net" shows "carries P (fst (deleteEvent net i w))"
  unfolding deleteEvent_def
  by (rule try_catch_carries)
    (auto intro!: message_of_response [OF assms] dest: on_response_Inl [OF assms] call_api_Inl [OF assms]
      elim!: on_response_carries [rotated] split: if_splits)

lemma getEventCategories_carries:
  assumes "fit P net" shows "carries P (fst (getEventCategories net w))"
  unfolding getEventCategories_def
  by (rule try_catch_carries)
    (auto intro!: message_of_response [OF assms] dest: on_response_Inl [OF assms] call_api_Inl [OF assms]
      elim!: on_response_carries [rotated])

lemma getEventsStats_carries:
  assumes "fit P net" shows "carries P (fst (getEventsStats net w))"
  unfolding getEventsStats_def
  by (rule try_catch_carries)
    (auto intro!: message_of_response [OF assms] dest: on_response_Inl [OF assms] call_api_Inl [OF assms]
      elim!: on_response_carries [rotated])

lemma updateEventAttendance_carries:
  assumes "fit P net" shows "carries P (fst (updateEventAttendance net i n w))"
  unfolding updateEventAttendance_def
  by (rule try_catch_carries)
    (auto intro!: message_of_response_or_error [OF assms] dest: on_response_Inl [OF assms] call_api_Inl [OF assms]
      elim!: on_response_carries [rotated] split: if_splits)

lemma getUpcomingEvents_carries:
  assumes "fit P net" shows "carries P (fst (getUpcomingEvents net l w))"
  unfolding getUpcomingEvents_def Let_def
  by (rule try_catch_carries)
    (auto intro!: message_of_response [OF assms] dest: on_response_Inl [OF assms] call_api_Inl [OF assms]
      elim!: on_response_carries [rotated])

lemma exportEvents_carries:
  assumes "fit P net" shows "carries P (fst (exportEvents net today f w))"
  unfolding exportEvents_def Let_def
  by (rule try_catch_carries)
    (auto intro!: message_of_response [OF assms] dest: on_response_Inl [OF assms] call_api_Inl [OF assms]
      elim!: on_response_carries [rotated] split: if_splits prod.splits sum.splits)

lemma duplicateEvent_carries:
  assumes "fit P net" shows "carries P (fst (duplicateEvent net i w))"
  unfolding duplicateEvent_def
  by (rule try_catch_carries)
    (auto intro!: message_of_response [OF assms] dest: on_response_Inl [OF assms] call_api_Inl [OF assms]
      elim!: on_response_carries [rotated] split: if_splits)

lemma bulkCreateEvents_carries:
  assumes "fit P net" shows "carries P (fst (bulkCreateEvents net rs w))"
  unfolding bulkCreateEvents_def
  by (rule try_catch_carries)
    (auto simp: bulk_report_carries [OF assms] intro!: message_of_error [OF assms]
      split: if_splits prod.splits)

lemma searchEvents_carries:
  assumes "fit P net" shows "carries P (fst (searchEvents net t f w))"
  unfolding searchEvents_def
  by (rule try_catch_carries)
    (auto simp: getEvents_carries [OF assms] intro!: message_of_error [OF assms]
      dest!: returned_Inr split: if_splits)

lemma getEventsSummary_carries:
  assumes "fit P net" shows "carries P (fst (getEventsSummary net f w))"
  unfolding getEventsSummary_def
proof (rule try_catch_carries, goal_cases)
  case (1 e w')
  show ?case by (simp add: message_of_error [OF assms])
next
  case (2 v w')
  from getEventsStats_carries [OF assms, of w] 2 show ?case
    by (auto split: prod.splits if_splits)
qed

lemma getEventsByCategory_carries:
  assumes "fit P net" shows "carries P (fst (getEventsByCategory net c w))"
  unfolding getEventsByCategory_def
  by (rule try_catch_carries)
    (auto simp: getEvents_carries [OF assms] intro!: message_of_error [OF assms]
      dest!: returned_Inr split: if_splits)

lemma getEventsByDateRange_carries:
  assumes "fit P net" shows "carries P (fst (getEventsByDateRange net s e w))"
  unfolding getEventsByDateRange_def
  by (rule try_catch_carries)
    (auto simp: getEvents_carries [OF assms] intro!: message_of_error [OF assms]
      dest!: returned_Inr split: if_splits)

lemma getTodaysEvents_carries:
  assumes "fit P net" shows "carries P (fst (getTodaysEvents net today w))"
  unfolding getTodaysEvents_def
proof (rule try_catch_carries, goal_cases)
  case (1 e w')
  show ?case by (simp add: message_fixed [OF assms])
next
  case (2 v w')
  let ?f = "no_event_filters\<lparr>ef_limit := Given (Safe 50), ef_sortBy := Given ''time'',
                                  ef_sortOrder := Given ''ASC''\<rparr>"
  from getEvents_carries [OF assms, of ?f w] 2 show ?case
    by (auto split: prod.splits if_splits jsval.splits option.splits)
qed

lemma gateways_carry:
  assumes "fit P net"
  shows "\<forall>v \<in> set [fst (getAttendanceRecords net af w),
           fst (getAttendanceById net ident w),
           fst (createAttendance net ad w),
           fst (updateAttendance net ident ad w),
           fst (deleteAttendance net ident w),
           fst (getAttendanceStats net period w),
           fst (getServiceTypes net w),
           fst (getMembersForAttendance net w),
           fst (generateReport net today rf w),
           fst (bulkCreateAttendance net ads w),
           fst (searchAttendance net term af w),
           fst (getAttendanceSummary net period w),
           fst (getEvents net ef w),
           fst (getEventById net ident w),
           fst (createEvent net ed w),
           fst (updateEvent net ident ed w),
           fst (deleteEvent net ident w),
           fst (getEventCategories net w),
           fst (getEventsStats net w),
           fst (updateEventAttendance net ident n w),
           fst (getUpcomingEvents net lim w),
           fst (exportEvents net today xf w),
           fst (duplicateEvent net ident w),
           fst (bulkCreateEvents net eds w),
           fst (searchEvents net term ef w),
           fst (getEventsSummary net ef w),
           fst (getEventsByCategory net cat w),
           fst (getEventsByDateRange net sd edt w),
           fst (getTodaysEvents net today w)]. carries P v"
  unfolding list.set ball_simps
  by (intro conjI getAttendanceRecords_carries getAttendanceById_carries
      createAttendance_carries updateAttendance_carries deleteAttendance_carries
      getAttendanceStats_carries getServiceTypes_carries getMembersForAttendance_carries
      generateReport_carries bulkCreateAttendance_carries searchAttendance_carries
      getAttendanceSummary_carries getEvents_carries getEventById_carries
      createEvent_carries updateEvent_carries deleteEvent_carries
      getEventCategories_carries getEventsStats_carries updateEventAttendance_carries
      getUpcomingEvents_carries exportEvents_carries duplicateEvent_carries
      bulkCreateEvents_carries searchEvents_carries getEventsSummary_carries
      getEventsByCategory_carries getEventsByDateRange_carries getTodaysEvents_carries
      assms TrueI)

text \<open>
  C5 (as amended). Each of the 12 operations of \<open>attendanceAPI\<close> and of the 17
  asynchronous operations of \<open>eventsAPI\<close> is a \<open>try\<close> whose \<open>catch\<close> returns an envelope:
  whatever the backend does and whatever is thrown inside, the operation returns an
  envelope, and an envelope with \<open>success: false\<close> carries a truthy message. The message
  is a non-empty string when every rejection of the backend whose body has a truthy
  \<open>message\<close> has a non-empty string there.
\<close>

theorem result_envelope_invariant:
  "let vs = [fst (getAttendanceRecords net af w),
             fst (getAttendanceById net ident w),
             fst (createAttendance net ad w),
             fst (updateAttendance net ident ad w),
             fst (deleteAttendance net ident w),
             fst (getAttendanceStats net period w),
             fst (getServiceTypes net w),
             fst (getMembersForAttendance net w),
             fst (generateReport net today rf w),
             fst (bulkCreateAttendance net ads w),
             fst (searchAttendance net term af w),
             fst (getAttendanceSummary net period w),
             fst (getEvents net ef w),
             fst (getEventById net ident w),
             fst (createEvent net ed w),
             fst (updateEvent net ident ed w),
             fst (deleteEvent net ident w),
             fst (getEventCategories net w),
             fst (getEventsStats net w),
             fst (updateEventAttendance net ident n w),
             fst (getUpcomingEvents net lim w),
             fst (exportEvents net today xf w),
             fst (duplicateEvent net ident w),
             fst (bulkCreateEvents net eds w),
             fst (searchEvents net term ef w),
             fst (getEventsSummary net ef w),
             fst (getEventsByCategory net cat w),
             fst (getEventsByDateRange net sd edt w),
             fst (getTodaysEvents net today w)]
   in (\<forall>v \<in> set vs. \<not> success v \<longrightarrow> js_truthy (message v)) \<and>
      ((\<forall>b rq e. fst (net b rq) = Inl e \<and> js_truthy (resp_message e)
           \<longrightarrow> is_text (resp_message e))
       \<longrightarrow> (\<forall>v \<in> set vs. \<not> success v \<longrightarrow> is_text (message v)))"
proof -
  have t: "fit js_truthy net" by (rule fit_truthy)
  have s: "fit is_text net"
    if "\<forall>b rq e. fst (net b rq) = Inl e \<and> js_truthy (resp_message e)
           \<longrightarrow> is_text (resp_message e)"
    using that by (simp add: fit_text)
  show ?thesis
    unfolding Let_def
    using gateways_carry [OF t, of af w ident ad period today rf ads "term" ef ed n lim xf eds
        cat sd edt]
      gateways_carry [OF s, of af w ident ad period today rf ads "term" ef ed n lim xf eds
        cat sd edt]
    unfolding carries_def by blast
qed

theorem result_envelope_invariant_witness:
  "\<not> success (fst (getEvents refusing_backend no_event_filters (fresh_world ()))) \<and>
   message (fst (getEvents refusing_backend no_event_filters (fresh_world ()))) = Str ''Forbidden'' \<and>
   is_text (message (fst (getEvents refusing_backend no_event_filters (fresh_world ())))) \<and>
   \<not> success (fst (createAttendance refusing_backend (attendance_record ''2024-01-07'' 120)
                    (fresh_world ()))) \<and>
   is_text (message (fst (createAttendance refusing_backend
                            (attendance_record ''2024-01-07'' 120) (fresh_world ())))) \<and>
   \<not> success (fst (getEventById refusing_backend None (fresh_world ()))) \<and>
   message (fst (getEventById refusing_backend None (fresh_world ())))
     = Str ''Failed to fetch event details'' \<and>
   \<not> success (fst (getEvents unreachable_backend no_event_filters (fresh_world ()))) \<and>
   message (fst (getEvents unreachable_backend no_event_filters (fresh_world ())))
     = Str ''Failed to fetch events'' \<and>
   message (fst (createAttendance unreachable_backend (attendance_record ''2024-01-07'' 120)
                   (fresh_world ()))) = Str ''Network Error''"
proof -
  have h: "\<forall>b rq e. fst (refusing_backend b rq) = Inl e \<and> js_truthy (resp_message e)
             \<longrightarrow> is_text (resp_message e)"
    by (auto simp: refusing_backend_def resp_message_def empty_body_def)
  have e: "\<not> success (fst (getEvents refusing_backend no_event_filters (fresh_world ())))"
    "message (fst (getEvents refusing_backend no_event_filters (fresh_world ()))) = Str ''Forbidden''"
    "\<not> success (fst (getEventById refusing_backend None (fresh_world ())))"
    "message (fst (getEventById refusing_backend None (fresh_world ())))
       = Str ''Failed to fetch event details''"
    "\<not> success (fst (getEvents unreachable_backend no_event_filters (fresh_world ())))"
    "message (fst (getEvents unreachable_backend no_event_filters (fresh_world ())))
       = Str ''Failed to fetch events''"
    by (simp_all add: getEvents_def getEventById_def call_api_def refusing_backend_def
        unreachable_backend_def on_response_def fail_env_def resp_message_def empty_body_def
        msg_or_def js_or_def js_error_def)
  have a: "\<not> success (fst (createAttendance refusing_backend
              (attendance_record ''2024-01-07'' 120) (fresh_world ())))"
    "message (fst (createAttendance unreachable_backend (attendance_record ''2024-01-07'' 120)
                   (fresh_world ()))) = Str ''Network Error''"
    by (simp_all add: createAttendance_def attendance_invalid_def attendance_record_def
        int_of_Safe call_api_def refusing_backend_def unreachable_backend_def on_response_def
        fail_env_def resp_message_def msg_or_def js_or_def)
  note w = result_envelope_invariant [where net = refusing_backend and w = "fresh_world ()"
      and ef = no_event_filters and ad = "attendance_record ''2024-01-07'' 120"]
  from w h e a show ?thesis by (simp add: Let_def)
qed

text \<open>
  The claim as stated fails for the two synchronous helpers of \<open>eventsAPI\<close> and for a
  backend whose error body carries a message that is not a string: \<open>validateEventData\<close>
  throws a \<open>TypeError\<close> for \<open>null\<close>, \<open>formatEventForDisplay\<close> returns \<open>null\<close> for
  \<open>null\<close>, and \<open>getEvents\<close> hands the number 42 through as the message of its failure
  envelope.
\<close>

theorem result_envelope_counterexample:
  "validateEventData (\<lambda>x. None) (\<lambda>x. None) 0 None = Inl type_error \<and>
   formatEventForDisplay (\<lambda>event. event) Null = Null \<and>
   \<not> success (fst (getEvents numbering_backend no_event_filters (fresh_world ()))) \<and>
   message (fst (getEvents numbering_backend no_event_filters (fresh_world ()))) = Num 42 \<and>
   \<not> is_text (Num 42)"
  by (simp add: validateEventData_def formatEventForDisplay_def getEvents_def call_api_def
      numbering_backend_def on_response_def fail_env_def resp_message_def empty_body_def
      msg_or_def js_or_def)

subsection \<open>Exports and reports\<close>

lemma call_api_answered:
  assumes "fst (net (backend w) rq) = Inr resp"
  shows "call_api net rq w = (Inr resp, w\<lparr>backend := snd (net (backend w) rq), sent := sent w @ [rq]\<rparr>)"
  using assms by (cases "net (backend w) rq") (simp add: call_api_def)







subsection \<open>List operations\<close>

lemma append_str_present: "append_str k v = present [(k, text_value v)]"
  by (cases v) (simp_all add: append_str_def present_def text_value_def)

lemma append_num_present: "append_num k v = present [(k, number_value v)]"
  by (cases v)
    (simp_all add: append_num_def present_def number_value_def truthy_num_def js_string_def)

lemma append_bool_present: "append_bool k v = present [(k, flag_value v)]"
  by (cases v) (simp_all add: append_bool_def present_def flag_value_def)

lemma append_unless_all_present: "append_unless_all k v = present [(k, filter_value v)]"
  by (cases v) (simp_all add: append_unless_all_def present_def filter_value_def)

lemma present_append: "present xs @ present ys = present (xs @ ys)"
  by (simp add: present_def)

lemma attendance_query_present:
  "attendance_query af =
     present [(''page'', number_value (af_page af)), (''limit'', number_value (af_limit af)),
              (''startDate'', text_value (af_startDate af)),
              (''endDate'', text_value (af_endDate af)),
              (''serviceType'', filter_value (af_serviceType af)),
              (''sortBy'', text_value (af_sortBy af)),
              (''sortOrder'', text_value (af_sortOrder af))]"
  by (simp add: attendance_query_def append_str_present append_num_present
      append_unless_all_present present_append)

lemma events_query_present:
  "events_query ef =
     present [(''page'', number_value (value_of (ef_page ef))),
              (''limit'', number_value (value_of (ef_limit ef))),
              (''search'', text_value (value_of (ef_search ef))),
              (''status'', filter_value (value_of (ef_status ef))),
              (''category'', filter_value (value_of (ef_category ef))),
              (''upcoming'', flag_value (value_of (ef_upcoming ef))),
              (''sortBy'', text_value (value_of (ef_sortBy ef))),
              (''sortOrder'', text_value (value_of (ef_sortOrder ef)))]"
  by (simp add: events_query_def append_str_present append_num_present append_bool_present
      append_unless_all_present present_append)

lemma getEvents_sent:
  "sent (snd (getEvents net ef w)) =
     sent w @ [mk_request ''get'' (''/events?'' @ params_toString (events_query ef)) Undefined]"
  by (cases "net (backend w)
        (mk_request ''get'' (''/events?'' @ params_toString (events_query ef)) Undefined)";
      cases "fst (net (backend w)
        (mk_request ''get'' (''/events?'' @ params_toString (events_query ef)) Undefined))")
    (simp_all add: getEvents_def call_api_def on_response_def)

lemma getAttendanceRecords_sent:
  "sent (snd (getAttendanceRecords net af w)) =
     sent w @ [mk_request ''get'' (''/attendance?'' @ params_toString (attendance_query af))
                 Undefined]"
  by (cases "net (backend w)
        (mk_request ''get'' (''/attendance?'' @ params_toString (attendance_query af)) Undefined)";
      cases "fst (net (backend w)
        (mk_request ''get'' (''/attendance?'' @ params_toString (attendance_query af)) Undefined))")
    (simp_all add: getAttendanceRecords_def call_api_def on_response_def)

lemma getEvents_answered:
  assumes "fst (net (backend w)
             (mk_request ''get'' (''/events?'' @ params_toString (events_query ef)) Undefined))
           = Inr resp"
  shows "fst (getEvents net ef w) =
           (ok_env (b_data (json_body resp))
              (msg_or (b_message (json_body resp)) ''Events retrieved successfully''))
           \<lparr>pagination := b_pagination (json_body resp)\<rparr>"
  using call_api_answered [of net w _ resp, OF assms]
  by (simp add: getEvents_def on_response_def)

lemma getAttendanceRecords_answered:
  assumes "fst (net (backend w)
             (mk_request ''get'' (''/attendance?'' @ params_toString (attendance_query af)) Undefined))
           = Inr resp"
  shows "fst (getAttendanceRecords net af w) =
           (ok_env (b_data (json_body resp))
              (msg_or (b_message (json_body resp)) ''Attendance records retrieved successfully''))
           \<lparr>pagination := b_pagination (json_body resp)\<rparr>"
  using call_api_answered [of net w _ resp, OF assms]
  by (simp add: getAttendanceRecords_def on_response_def)

text \<open>
  C8 (as amended). \<open>getAttendanceRecords\<close> sends one request whose query holds, of
  page, limit, start date, end date, service type, sort key and sort direction, the ones
  that are given; \<open>getEvents\<close> sends one request whose query holds, of page, limit,
  search text, status, category, the upcoming flag, sort key and sort direction, the ones
  that are given. A parameter that is not given is left out of the query altogether, and
  for service type, status and category the value \<open>all\<close> counts as not given. When the
  backend answers with a JSON body, the envelope holds the data and the pagination
  descriptor of that body. In particular \<open>getEvents({status: 'all', category: 'all'})\<close>
  requests \<open>/events?\<close> with an empty query.
\<close>

theorem list_query_construction:
  "attendance_query af =
     present [(''page'', number_value (af_page af)), (''limit'', number_value (af_limit af)),
              (''startDate'', text_value (af_startDate af)),
              (''endDate'', text_value (af_endDate af)),
              (''serviceType'', filter_value (af_serviceType af)),
              (''sortBy'', text_value (af_sortBy af)),
              (''sortOrder'', text_value (af_sortOrder af))] \<and>
   events_query ef =
     present [(''page'', number_value (value_of (ef_page ef))),
              (''limit'', number_value (value_of (ef_limit ef))),
              (''search'', text_value (value_of (ef_search ef))),
              (''status'', filter_value (value_of (ef_status ef))),
              (''category'', filter_value (value_of (ef_category ef))),
              (''upcoming'', flag_value (value_of (ef_upcoming ef))),
              (''sortBy'', text_value (value_of (ef_sortBy ef))),
              (''sortOrder'', text_value (value_of (ef_sortOrder ef)))] \<and>
   sent (snd (getAttendanceRecords net af w)) =
     sent w @ [mk_request ''get'' (''/attendance?'' @ params_toString (attendance_query af))
                 Undefined] \<and>
   sent (snd (getEvents net ef w)) =
     sent w @ [mk_request ''get'' (''/events?'' @ params_toString (events_query ef)) Undefined] \<and>
   (fst (net (backend w)
      (mk_request ''get'' (''/attendance?'' @ params_toString (attendance_query af)) Undefined))
      = Inr (Json b) \<longrightarrow> listed (fst (getAttendanceRecords net af w)) b) \<and>
   (fst (net (backend w)
      (mk_request ''get'' (''/events?'' @ params_toString (events_query ef)) Undefined))
      = Inr (Json b) \<longrightarrow> listed (fst (getEvents net ef w)) b) \<and>
   sent (snd (getEvents net
      (no_event_filters\<lparr>ef_status := Given ''all'', ef_category := Given ''all''\<rparr>) w))
      = sent w @ [mk_request ''get'' ''/events?'' Undefined]"
proof (intro conjI impI)
  show "sent (snd (getEvents net
      (no_event_filters\<lparr>ef_status := Given ''all'', ef_category := Given ''all''\<rparr>) w))
      = sent w @ [mk_request ''get'' ''/events?'' Undefined]"
    by (simp add: getEvents_sent events_query_present present_def no_event_filters_def
        number_value_def text_value_def filter_value_def flag_value_def params_toString_def)
qed (simp_all add: attendance_query_present events_query_present getEvents_sent
    getAttendanceRecords_sent getEvents_answered getAttendanceRecords_answered listed_def
    ok_env_def)

theorem list_query_construction_witness:
  "fst (accepting_backend (backend (fresh_world 0))
      (mk_request ''get'' (''/events?'' @ params_toString (events_query page_two)) Undefined))
     = Inr (Json \<lparr>b_data = Obj [(''id'', Num 0)], b_message = Undefined,
                  b_pagination = Obj [(''currentPage'', Num 1), (''totalPages'', Num 3)],
                  b_count = Num 1, b_errors = Undefined\<rparr>) \<and>
   listed (fst (getEvents accepting_backend page_two (fresh_world 0)))
     \<lparr>b_data = Obj [(''id'', Num 0)], b_message = Undefined,
      b_pagination = Obj [(''currentPage'', Num 1), (''totalPages'', Num 3)],
      b_count = Num 1, b_errors = Undefined\<rparr> \<and>
   success (fst (getEvents accepting_backend page_two (fresh_world 0))) \<and>
   data (fst (getEvents accepting_backend page_two (fresh_world 0))) = Obj [(''id'', Num 0)] \<and>
   pagination (fst (getEvents accepting_backend page_two (fresh_world 0)))
     = Obj [(''currentPage'', Num 1), (''totalPages'', Num 3)] \<and>
   events_query page_two =
     [(''page'', ''2''), (''limit'', ''10''), (''search'', ''a&b''), (''category'', ''Youth Event'')] \<and>
   sent (snd (getEvents accepting_backend page_two (fresh_world 0))) =
     [mk_request ''get'' ''/events?page=2&limit=10&search=a%26b&category=Youth+Event'' Undefined]"
proof -
  let ?b = "\<lparr>b_data = Obj [(''id'', Num 0)], b_message = Undefined,
      b_pagination = Obj [(''currentPage'', Num 1), (''totalPages'', Num 3)],
      b_count = Num 1, b_errors = Undefined\<rparr>"
  have a: "fst (accepting_backend (backend (fresh_world 0))
      (mk_request ''get'' (''/events?'' @ params_toString (events_query page_two)) Undefined))
     = Inr (Json ?b)"
    by (simp add: accepting_backend_def fresh_world_def)
  note w = list_query_construction [of _ page_two accepting_backend "fresh_world 0" ?b]
  from w have q: "events_query page_two =
     [(''page'', ''2''), (''limit'', ''10''), (''search'', ''a&b''), (''category'', ''Youth Event'')]"
    by (simp add: page_two_def no_event_filters_def present_def number_value_def text_value_def
        filter_value_def flag_value_def show_int_def int_of_Safe)
  from w a have l: "listed (fst (getEvents accepting_backend page_two (fresh_world 0))) ?b"
    by simp
  have s: "params_toString [(''page'', ''2''), (''limit'', ''10''), (''search'', ''a&b''),
                            (''category'', ''Youth Event'')]
             = ''page=2&limit=10&search=a%26b&category=Youth+Event''"
    by (simp add: params_toString_def form_encode_def form_encode_char_def hex_digit_def)
  from w q s have r: "sent (snd (getEvents accepting_backend page_two (fresh_world 0))) =
     [mk_request ''get'' ''/events?page=2&limit=10&search=a%26b&category=Youth+Event'' Undefined]"
    by (simp add: fresh_world_def)
  from a q l r show ?thesis by (simp add: listed_def)
qed

text \<open>
  The claim as stated fails for the bounds of a date range on \<open>getEvents\<close> and for the
  search text on \<open>getAttendanceRecords\<close>: neither reaches the query, and the request is
  the one sent without any filter.
\<close>

theorem list_query_counterexample:
  "sent (snd (getEvents accepting_backend
      (no_event_filters\<lparr>ef_startDate := Given ''2024-01-01'', ef_endDate := Given ''2024-01-31''\<rparr>)
      (fresh_world 0))) = [mk_request ''get'' ''/events?'' Undefined] \<and>
   sent (snd (getAttendanceRecords accepting_backend
      (no_attendance_filters\<lparr>af_search := Some ''easter''\<rparr>) (fresh_world 0)))
      = [mk_request ''get'' ''/attendance?'' Undefined]"
  by (simp add: getEvents_sent getAttendanceRecords_sent events_query_present
      attendance_query_present present_def no_event_filters_def no_attendance_filters_def
      number_value_def text_value_def filter_value_def flag_value_def params_toString_def
      fresh_world_def)

text \<open>
  Where \<open>getEventsSummary\<close> spreads the filters over its defaults, a property given as
  \<open>undefined\<close> replaces the default and an absent one does not.
\<close>

lemma summary_filters_spread:
  "ef_limit (summary_filters (no_event_filters\<lparr>ef_limit := Undef\<rparr>)) = Undef \<and>
   ef_limit (summary_filters no_event_filters) = Given (Safe 5) \<and>
   ef_limit (summary_filters (no_event_filters\<lparr>ef_limit := Given (Safe 20)\<rparr>))
     = Given (Safe 20)"
  by (simp add: summary_filters_def no_event_filters_def)

end
